theory Spec2Isabelle
  imports Main
begin

text \<open>
  The wellness record builder of \<open>src/App.js\<close>: the helpers that normalise a raw person
  record, the builders of the person, attester and observation resources, and
  \<open>generateBundle\<close>, which checks its preconditions and composes the document bundle.
  The definitions follow the source function by function; the properties follow them.
\<close>

section \<open>JavaScript values and strings\<close>

text \<open>
  A JavaScript string is modelled as a \<^typ>\<open>string\<close> whose characters are the code units
  below 256, so \<^const>\<open>length\<close> is \<open>.length\<close>. A number is carried by its canonical
  decimal rendering (what \<open>String(n)\<close> returns), since the code only ever tests a number
  for truthiness or converts it to a string. An object is the list of its own properties
  in enumeration order.
\<close>

datatype jsval =
    JUndefined
  | JNull
  | JBool bool
  | JNum string
  | JStr string
  | JArr "jsval list"
  | JObj "(string \<times> jsval) list"

text \<open>Truthiness: \<open>!!v\<close>.\<close>

fun truthy :: "jsval \<Rightarrow> bool" where
  "truthy JUndefined = False"
| "truthy JNull = False"
| "truthy (JBool b) = b"
| "truthy (JNum r) = (r \<noteq> ''0'' \<and> r \<noteq> ''NaN'')"
| "truthy (JStr s) = (s \<noteq> [])"
| "truthy (JArr xs) = True"
| "truthy (JObj kvs) = True"

text \<open>\<open>xs.join(sep)\<close> on strings.\<close>

fun join :: "string \<Rightarrow> string list \<Rightarrow> string" where
  "join sep [] = []"
| "join sep [x] = x"
| "join sep (x # y # ys) = x @ sep @ join sep (y # ys)"

text \<open>
  \<open>String(v)\<close>. An array is joined with commas, \<open>null\<close> and \<open>undefined\<close> elements
  giving the empty string; a plain object gives \<open>[object Object]\<close>.
\<close>

fun jsString :: "jsval \<Rightarrow> string" where
  "jsString JUndefined = ''undefined''"
| "jsString JNull = ''null''"
| "jsString (JBool b) = (if b then ''true'' else ''false'')"
| "jsString (JNum r) = r"
| "jsString (JStr s) = s"
| "jsString (JArr xs) =
     join '','' (map (\<lambda>x. if x = JNull \<or> x = JUndefined then [] else jsString x) xs)"
| "jsString (JObj kvs) = ''[object Object]''"




text \<open>\<open>s.split(c)\<close> for a one-character separator.\<close>

fun split :: "char \<Rightarrow> string \<Rightarrow> string list" where
  "split c [] = [[]]"
| "split c (x # xs) =
     (if x = c then [] # split c xs
      else (case split c xs of p # ps \<Rightarrow> (x # p) # ps | [] \<Rightarrow> [[x]]))"


text \<open>
  \<open>s.toLowerCase()\<close> on code units below 256: the letters \<open>A\<close> to \<open>Z\<close> and the
  accented capitals \<open>0xC0\<close> to \<open>0xDE\<close> (without the multiplication sign \<open>0xD7\<close>) move
  up by 32; every other code unit stays.
\<close>

definition upperCaseLetters :: string where
  "upperCaseLetters =
     ''ABCDEFGHIJKLMNOPQRSTUVWXYZ'' @
     [CHR 0xC0, CHR 0xC1, CHR 0xC2, CHR 0xC3, CHR 0xC4, CHR 0xC5, CHR 0xC6, CHR 0xC7,
      CHR 0xC8, CHR 0xC9, CHR 0xCA, CHR 0xCB, CHR 0xCC, CHR 0xCD, CHR 0xCE, CHR 0xCF,
      CHR 0xD0, CHR 0xD1, CHR 0xD2, CHR 0xD3, CHR 0xD4, CHR 0xD5, CHR 0xD6, CHR 0xD8,
      CHR 0xD9, CHR 0xDA, CHR 0xDB, CHR 0xDC, CHR 0xDD, CHR 0xDE]"

definition lowerCaseLetters :: string where
  "lowerCaseLetters =
     ''abcdefghijklmnopqrstuvwxyz'' @
     [CHR 0xE0, CHR 0xE1, CHR 0xE2, CHR 0xE3, CHR 0xE4, CHR 0xE5, CHR 0xE6, CHR 0xE7,
      CHR 0xE8, CHR 0xE9, CHR 0xEA, CHR 0xEB, CHR 0xEC, CHR 0xED, CHR 0xEE, CHR 0xEF,
      CHR 0xF0, CHR 0xF1, CHR 0xF2, CHR 0xF3, CHR 0xF4, CHR 0xF5, CHR 0xF6, CHR 0xF8,
      CHR 0xF9, CHR 0xFA, CHR 0xFB, CHR 0xFC, CHR 0xFD, CHR 0xFE]"

definition lowerChar :: "char \<Rightarrow> char" where
  "lowerChar c =
     (case map_of (zip upperCaseLetters lowerCaseLetters) c of Some l \<Rightarrow> l | None \<Rightarrow> c)"

definition toLowerCase :: "string \<Rightarrow> string" where
  "toLowerCase s = map lowerChar s"

section \<open>Helpers of App.js\<close>

text \<open>
  A regular expression of the form \<open>^C1 C2 ... Cn$\<close>, each \<open>Ci\<close> a character class
  matching one character, is the list of its classes.
\<close>

definition matchClasses :: "string list \<Rightarrow> string \<Rightarrow> bool" where
  "matchClasses cls s = list_all2 (\<lambda>cl c. c \<in> set cl) cls s"


definition hex_i :: string where
  "hex_i = ''0123456789abcdefABCDEF''"

text \<open>
  \<open>/^[0-9a-f]{8}-[0-9a-f]{4}-[1-5][0-9a-f]{3}-[89ab][0-9a-f]{3}-[0-9a-f]{12}$/i\<close>
\<close>

definition uuidPattern :: "string list" where
  "uuidPattern =
     replicate 8 hex_i @ [''-''] @ replicate 4 hex_i @ [''-''] @
     [''12345''] @ replicate 3 hex_i @ [''-''] @
     [''89abAB''] @ replicate 3 hex_i @ [''-''] @ replicate 12 hex_i"

text \<open>\<open>isUuid\<close>, on a value that is a string or not.\<close>

fun isUuid :: "jsval \<Rightarrow> bool" where
  "isUuid (JStr s) = matchClasses uuidPattern s"
| "isUuid v = False"






section \<open>The effects of a generation run\<close>

text \<open>
  \<open>uuidv4()\<close> (package \<open>uuid\<close>) and \<open>new Date().toISOString()\<close> read the outside
  world. A run is given the values they return, as two streams, and the state counts how
  many values of each the run has taken.
\<close>

record env =
  uuids :: "nat \<Rightarrow> string"
  dates :: "nat \<Rightarrow> string"

record world =
  uuidCalls :: nat
  dateCalls :: nat

definition uuidv4 :: "env \<Rightarrow> world \<Rightarrow> string \<times> world" where
  "uuidv4 E w = (uuids E (uuidCalls w), w\<lparr>uuidCalls := Suc (uuidCalls w)\<rparr>)"

definition nowISO :: "env \<Rightarrow> world \<Rightarrow> string \<times> world" where
  "nowISO E w = (dates E (dateCalls w), w\<lparr>dateCalls := Suc (dateCalls w)\<rparr>)"

section \<open>Resources\<close>

text \<open>
  Each object literal of the source is a record with the fields the source writes; a
  property that some literals leave out (\<open>undefined\<close>) is an \<open>option\<close>. A codeable
  concept without a \<open>coding\<close> property has the empty coding list (the source never
  writes an empty \<open>coding\<close> array). \<open>name: [{ text: n }]\<close> and \<open>address: [{ text: a }]\<close>
  are the lists of their texts, \<open>meta: { profile: ps }\<close> is \<open>ps\<close>.
\<close>

record narrative =
  n_status :: string
  n_div :: string

record coding =
  cd_system :: string
  cd_code :: string
  cd_display :: "string option"

record codeableConcept =
  cc_coding :: "coding list"
  cc_text :: string

record identifierEntry =
  id_system :: string
  id_value :: string
  id_type :: codeableConcept

record reference =
  ref :: string
  ref_display :: "string option"

record contactPoint =
  cp_system :: string
  cp_value :: string

record patient =
  pt_id :: string
  pt_profile :: "string list"
  pt_text :: narrative
  pt_identifier :: "identifierEntry list"
  pt_name :: "string list"
  pt_gender :: "string option"
  pt_birthDate :: "string option"
  pt_telecom :: "contactPoint list"
  pt_address :: "string list"

record practitioner =
  pr_id :: string
  pr_profile :: "string list"
  pr_text :: narrative
  pr_identifier :: "identifierEntry list"
  pr_name :: "string list"

text \<open>
  \<open>Number(quantity)\<close> is a floating-point conversion; the model keeps the converted
  value symbolic, as the number that \<open>Number\<close> yields for this argument.
\<close>

datatype jsnumber = Number jsval

record quantity =
  q_value :: jsnumber
  q_unit :: string
  q_system :: string
  q_code :: string

record component =
  cm_code :: codeableConcept
  cm_valueCodeableConcept :: codeableConcept

record observation =
  ob_id :: string
  ob_profile :: "string list"
  ob_status :: string
  ob_code :: codeableConcept
  ob_subject :: reference
  ob_performer :: "reference list"
  ob_effectiveDateTime :: string
  ob_valueString :: "string option"
  ob_valueCodeableConcept :: "codeableConcept option"
  ob_component :: "component list option"
  ob_valueQuantity :: "quantity option"
  ob_text :: narrative

record compSection =
  sc_title :: string
  sc_entry :: "reference list option"
  sc_text :: "narrative option"

record attester =
  at_mode :: string
  at_party :: reference

record composition =
  co_id :: string
  co_profile :: "string list"
  co_status :: string
  co_type :: codeableConcept
  co_subject :: reference
  co_date :: string
  co_author :: "reference list"
  co_attester :: "attester list"
  co_title :: string
  co_section :: "compSection list"
  co_text :: narrative

datatype resource =
    Composition composition
  | Patient patient
  | Practitioner practitioner
  | Observation observation

record bundleEntry =
  fullUrl :: string
  resource :: resource

record fhirBundle =
  bn_type :: string
  bn_id :: string
  bn_identifier :: "string \<times> string"
  bn_timestamp :: string
  bn_entry :: "bundleEntry list"

section \<open>Constants of App.js\<close>

definition NDHM_PATIENT_PROFILE :: string where
  "NDHM_PATIENT_PROFILE = ''https://nrces.in/ndhm/fhir/r4/StructureDefinition/Patient''"

definition NDHM_PRACTITIONER_PROFILE :: string where
  "NDHM_PRACTITIONER_PROFILE =
     ''https://nrces.in/ndhm/fhir/r4/StructureDefinition/Practitioner''"

definition NDHM_WELLNESS_COMPOSITION :: string where
  "NDHM_WELLNESS_COMPOSITION =
     ''https://nrces.in/ndhm/fhir/r4/StructureDefinition/WellnessRecord''"

definition OBS_PHYSICAL_PROFILE :: string where
  "OBS_PHYSICAL_PROFILE =
     ''https://nrces.in/ndhm/fhir/r4/StructureDefinition/ObservationPhysicalActivity''"

definition OBS_GENERAL_PROFILE :: string where
  "OBS_GENERAL_PROFILE =
     ''https://nrces.in/ndhm/fhir/r4/StructureDefinition/ObservationGeneralAssessment''"

definition OBS_LIFESTYLE_PROFILE :: string where
  "OBS_LIFESTYLE_PROFILE =
     ''https://nrces.in/ndhm/fhir/r4/StructureDefinition/ObservationLifestyle''"

definition V2_0203 :: string where
  "V2_0203 = ''http://terminology.hl7.org/CodeSystem/v2-0203''"

text \<open>The narrative markup \<open><div xmlns="http://www.w3.org/1999/xhtml">...</div>\<close>.\<close>

definition xhtmlDiv :: "string \<Rightarrow> string" where
  \<open>xhtmlDiv inner = ''<div xmlns="http://www.w3.org/1999/xhtml">'' @ inner @ ''</div>''\<close>

definition generated :: "string \<Rightarrow> narrative" where
  "generated d = \<lparr>n_status = ''generated'', n_div = d\<rparr>"

definition urn :: "string \<Rightarrow> string" where
  "urn i = ''urn:uuid:'' @ i"

definition refTo :: "string \<Rightarrow> reference" where
  "refTo i = \<lparr>ref = urn i, ref_display = None\<rparr>"

text \<open>An identifier type \<open>{ coding: [{ system: V2_0203, code, display }], text }\<close>.\<close>

definition v2Type :: "string \<Rightarrow> string \<Rightarrow> string \<Rightarrow> codeableConcept" where
  "v2Type c d t =
     \<lparr>cc_coding = [\<lparr>cd_system = V2_0203, cd_code = c, cd_display = Some d\<rparr>], cc_text = t\<rparr>"

text \<open>\<open>x || undefined\<close> on a string.\<close>

definition orUndefined :: "string \<Rightarrow> string option" where
  "orUndefined s = (if s = [] then None else Some s)"

section \<open>The form and the person resource\<close>

text \<open>
  The form that \<open>mapApiToForm\<close> and the input fields build. Its text fields are strings
  (the feed's fields are strings or \<open>null\<close>, and \<open>x || ""\<close> turns \<open>null\<close> into the empty
  string); \<open>selectedAbhaAddress\<close> starts \<open>undefined\<close>, here \<open>None\<close>.
\<close>

record form =
  api :: jsval
  resourceId :: string
  displayName :: string
  gender :: string
  birthDate :: string
  mobile :: string
  address :: string
  abhaRef :: string
  abhaAddresses :: "string list"
  selectedAbhaAddress :: "string option"
  mrn :: string

text \<open>Truthiness of a property that is a string or \<open>undefined\<close>.\<close>

definition present :: "string option \<Rightarrow> bool" where
  "present x = (case x of None \<Rightarrow> False | Some s \<Rightarrow> s \<noteq> [])"

definition buildFhirPatient :: "env \<Rightarrow> world \<Rightarrow> form \<Rightarrow> patient \<times> world" where
  "buildFhirPatient E w f =
     (let (i, w1) =
            (if resourceId f \<noteq> [] \<and> isUuid (JStr (resourceId f))
             then (toLowerCase (resourceId f), w) else uuidv4 E w);
          identifier0 =
            (if abhaRef f \<noteq> []
             then [\<lparr>id_system = ''https://healthid.abdm.gov.in'', id_value = abhaRef f,
                    id_type = v2Type ''PI'' ''Patient internal identifier'' ''ABHA Number''\<rparr>]
             else []) @
            (if present (selectedAbhaAddress f)
             then [\<lparr>id_system = ''https://healthid.abdm.gov.in/address'',
                    id_value = the (selectedAbhaAddress f),
                    id_type = v2Type ''PN'' ''Person number'' ''ABHA Address''\<rparr>]
             else []) @
            (if mrn f \<noteq> []
             then [\<lparr>id_system = ''http://hospital.example/mrn'', id_value = mrn f,
                    id_type = v2Type ''MR'' ''Medical record number'' ''MRN''\<rparr>]
             else []);
          identifier1 =
            (if identifier0 = []
             then [\<lparr>id_system = ''urn:uuid'', id_value = i,
                    id_type = v2Type ''PI'' ''Patient internal identifier'' ''generated-id''\<rparr>]
             else identifier0);
          telecom =
            (if mobile f \<noteq> [] then [\<lparr>cp_system = ''phone'', cp_value = mobile f\<rparr>] else [])
      in (\<lparr>pt_id = i,
           pt_profile = [NDHM_PATIENT_PROFILE],
           pt_text = generated (xhtmlDiv (''<p>'' @ displayName f @ ''</p>'')),
           pt_identifier = identifier1,
           pt_name = [displayName f],
           pt_gender = orUndefined (gender f),
           pt_birthDate = orUndefined (birthDate f),
           pt_telecom = telecom,
           pt_address = (if address f \<noteq> [] then [address f] else [])\<rparr>, w1))"

text \<open>
  The specification's reading of the identifier list: an entry is summarised by its type
  codes, its type label and its value, and the identity sources that are present give
  one summary each, in the order health id, selected health address, record number.
\<close>

definition identifierSummary :: "identifierEntry \<Rightarrow> string list \<times> string \<times> string" where
  "identifierSummary i = (map cd_code (cc_coding (id_type i)), cc_text (id_type i), id_value i)"

definition presentSources :: "form \<Rightarrow> (string list \<times> string \<times> string) list" where
  "presentSources f =
     (if abhaRef f \<noteq> [] then [([''PI''], ''ABHA Number'', abhaRef f)] else []) @
     (if present (selectedAbhaAddress f)
      then [([''PN''], ''ABHA Address'', the (selectedAbhaAddress f))] else []) @
     (if mrn f \<noteq> [] then [([''MR''], ''MRN'', mrn f)] else [])"

section \<open>Address extraction\<close>

text \<open>
  \<open>JSON.stringify\<close>. A string is quoted, with the quotation mark, the backslash and the
  control characters below \<open>0x20\<close> escaped; an array element that is \<open>undefined\<close> is
  written \<open>null\<close> and an object property that is \<open>undefined\<close> is left out; a number that
  is not finite is written \<open>null\<close>.
\<close>

definition jsonEscapes :: "(char \<times> string) list" where
  "jsonEscapes =
     [(CHR 0x22, [CHR 0x5C, CHR 0x22]), (CHR 0x5C, [CHR 0x5C, CHR 0x5C]),
      (CHR 0x00, [CHR 0x5C] @ ''u0000''), (CHR 0x01, [CHR 0x5C] @ ''u0001''),
      (CHR 0x02, [CHR 0x5C] @ ''u0002''), (CHR 0x03, [CHR 0x5C] @ ''u0003''),
      (CHR 0x04, [CHR 0x5C] @ ''u0004''), (CHR 0x05, [CHR 0x5C] @ ''u0005''),
      (CHR 0x06, [CHR 0x5C] @ ''u0006''), (CHR 0x07, [CHR 0x5C] @ ''u0007''),
      (CHR 0x08, [CHR 0x5C] @ ''b''), (CHR 0x09, [CHR 0x5C] @ ''t''),
      (CHR 0x0A, [CHR 0x5C] @ ''n''), (CHR 0x0B, [CHR 0x5C] @ ''u000b''),
      (CHR 0x0C, [CHR 0x5C] @ ''f''), (CHR 0x0D, [CHR 0x5C] @ ''r''),
      (CHR 0x0E, [CHR 0x5C] @ ''u000e''), (CHR 0x0F, [CHR 0x5C] @ ''u000f''),
      (CHR 0x10, [CHR 0x5C] @ ''u0010''), (CHR 0x11, [CHR 0x5C] @ ''u0011''),
      (CHR 0x12, [CHR 0x5C] @ ''u0012''), (CHR 0x13, [CHR 0x5C] @ ''u0013''),
      (CHR 0x14, [CHR 0x5C] @ ''u0014''), (CHR 0x15, [CHR 0x5C] @ ''u0015''),
      (CHR 0x16, [CHR 0x5C] @ ''u0016''), (CHR 0x17, [CHR 0x5C] @ ''u0017''),
      (CHR 0x18, [CHR 0x5C] @ ''u0018''), (CHR 0x19, [CHR 0x5C] @ ''u0019''),
      (CHR 0x1A, [CHR 0x5C] @ ''u001a''), (CHR 0x1B, [CHR 0x5C] @ ''u001b''),
      (CHR 0x1C, [CHR 0x5C] @ ''u001c''), (CHR 0x1D, [CHR 0x5C] @ ''u001d''),
      (CHR 0x1E, [CHR 0x5C] @ ''u001e''), (CHR 0x1F, [CHR 0x5C] @ ''u001f'')]"

definition jsonQuote :: "string \<Rightarrow> string" where
  "jsonQuote s =
     [CHR 0x22] @
     concat (map (\<lambda>c. case map_of jsonEscapes c of Some e \<Rightarrow> e | None \<Rightarrow> [c]) s) @
     [CHR 0x22]"

fun stringify :: "jsval \<Rightarrow> string" where
  "stringify JUndefined = ''null''"
| "stringify JNull = ''null''"
| "stringify (JBool b) = (if b then ''true'' else ''false'')"
| "stringify (JNum r) =
     (if r = ''NaN'' \<or> r = ''Infinity'' \<or> r = ''-Infinity'' then ''null'' else r)"
| "stringify (JStr s) = jsonQuote s"
| "stringify (JArr xs) = ''['' @ join '','' (map stringify xs) @ '']''"
| "stringify (JObj kvs) =
     ''{'' @
     join '',''
       (map (\<lambda>kv. jsonQuote (fst kv) @ '':'' @ stringify (snd kv))
          (filter (\<lambda>kv. snd kv \<noteq> JUndefined) kvs)) @
     ''}''"









section \<open>The attester and the observations\<close>

record practitionerInput =
  loginId :: string
  name :: string
  license :: string

definition GLOBAL_PRACTITIONER :: practitionerInput where
  "GLOBAL_PRACTITIONER = \<lparr>loginId = ''pract-001'', name = ''Dr. ABC'', license = ''LIC-1234''\<rparr>"

definition buildPractitioner ::
  "env \<Rightarrow> world \<Rightarrow> practitionerInput \<Rightarrow> practitioner \<times> world" where
  "buildPractitioner E w pract =
     (let (i, w1) = uuidv4 E w
      in (\<lparr>pr_id = i,
           pr_profile = [NDHM_PRACTITIONER_PROFILE],
           pr_text = generated (xhtmlDiv (''<p>'' @ name pract @ ''</p>'')),
           pr_identifier =
             [\<lparr>id_system = ''https://ndhm.in/practitioner/license'', id_value = license pract,
               id_type = v2Type ''MD'' ''Medical License number'' ''Medical License number''\<rparr>,
              \<lparr>id_system = ''https://your.system/login-id'', id_value = loginId pract,
               id_type = v2Type ''PN'' ''Person number'' ''Login id''\<rparr>],
           pr_name = [name pract]\<rparr>, w1))"

text \<open>\<open>s || d\<close> on strings.\<close>

definition orElse :: "string \<Rightarrow> string \<Rightarrow> string" where
  "orElse s d = (if s = [] then d else s)"

definition buildPhysicalActivityObs ::
  "env \<Rightarrow> world \<Rightarrow> string \<Rightarrow> string \<Rightarrow> string \<Rightarrow> observation \<times> world" where
  "buildPhysicalActivityObs E w patientId practitionerId txt =
     (let (i, w1) = uuidv4 E w;
          (now, w2) = nowISO E w1
      in (\<lparr>ob_id = i,
           ob_profile = [OBS_PHYSICAL_PROFILE],
           ob_status = ''final'',
           ob_code =
             \<lparr>cc_coding =
                [\<lparr>cd_system = ''http://loinc.org'', cd_code = ''68516-4'',
                  cd_display = Some (''On those days that you engage in moderate to strenuous '' @
                    ''exercise, how many minutes, on average, do you exercise'')\<rparr>],
              cc_text = ''Physical activity''\<rparr>,
           ob_subject = refTo patientId,
           ob_performer = [refTo practitionerId],
           ob_effectiveDateTime = now,
           ob_valueString = Some (orElse txt ''Not provided''),
           ob_valueCodeableConcept = None,
           ob_component = None,
           ob_valueQuantity = None,
           ob_text = generated (xhtmlDiv (''<p>'' @ orElse txt ''Not provided'' @ ''</p>''))\<rparr>,
          w2))"

definition buildGeneralAssessmentObs ::
  "env \<Rightarrow> world \<Rightarrow> string \<Rightarrow> string \<Rightarrow> string \<Rightarrow> bool \<Rightarrow> observation \<times> world" where
  "buildGeneralAssessmentObs E w patientId practitionerId notes pain =
     (let (i, w1) = uuidv4 E w;
          textVal = orElse notes ''Not provided'';
          (now, w2) = nowISO E w1
      in (\<lparr>ob_id = i,
           ob_profile = [OBS_GENERAL_PROFILE],
           ob_status = ''final'',
           ob_code =
             \<lparr>cc_coding =
                [\<lparr>cd_system = ''http://loinc.org'', cd_code = ''8693-4'',
                  cd_display = Some ''Mental status''\<rparr>],
              cc_text = ''General assessment''\<rparr>,
           ob_subject = refTo patientId,
           ob_performer = [refTo practitionerId],
           ob_effectiveDateTime = now,
           ob_valueString = None,
           ob_valueCodeableConcept = Some \<lparr>cc_coding = [], cc_text = textVal\<rparr>,
           ob_component =
             Some [\<lparr>cm_code = \<lparr>cc_coding = [], cc_text = ''Any current pain?''\<rparr>,
                    cm_valueCodeableConcept =
                      \<lparr>cc_coding = [], cc_text = (if pain then ''Yes'' else ''No'')\<rparr>\<rparr>],
           ob_valueQuantity = None,
           ob_text = generated (xhtmlDiv (''<p>'' @ textVal @ ''</p>''))\<rparr>,
          w2))"

text \<open>
  The local \<open>v\<close> of \<open>buildLifestyleObs\<close>:
  \<open>typeof value === "boolean" ? (value ? "Yes" : "No") : String(value || "Not provided")\<close>.
\<close>

definition lifestyleText :: "jsval \<Rightarrow> string" where
  "lifestyleText v =
     (case v of
        JBool b \<Rightarrow> (if b then ''Yes'' else ''No'')
      | _ \<Rightarrow> (if truthy v then jsString v else ''Not provided''))"

definition buildLifestyleObs ::
  "env \<Rightarrow> world \<Rightarrow> string \<Rightarrow> string \<Rightarrow> string \<Rightarrow> jsval \<Rightarrow> observation \<times> world" where
  "buildLifestyleObs E w patientId practitionerId lbl val =
     (let (i, w1) = uuidv4 E w;
          v = lifestyleText val;
          (now, w2) = nowISO E w1
      in (\<lparr>ob_id = i,
           ob_profile = [OBS_LIFESTYLE_PROFILE],
           ob_status = ''final'',
           ob_code =
             \<lparr>cc_coding =
                [\<lparr>cd_system = ''http://snomed.info/sct'', cd_code = ''229819007'',
                  cd_display = Some ''Tobacco use and exposure''\<rparr>],
              cc_text = orElse lbl ''Lifestyle''\<rparr>,
           ob_subject = refTo patientId,
           ob_performer = [refTo practitionerId],
           ob_effectiveDateTime = now,
           ob_valueString = None,
           ob_valueCodeableConcept = Some \<lparr>cc_coding = [], cc_text = v\<rparr>,
           ob_component = None,
           ob_valueQuantity = None,
           ob_text = generated (xhtmlDiv (''<p>'' @ lbl @ '': '' @ v @ ''</p>''))\<rparr>,
          w2))"

text \<open>
  \<open>buildVitalObservation\<close> returns \<open>null\<close>, here \<open>None\<close>, before it coins an identity when
  the quantity is the empty string, \<open>undefined\<close> or \<open>null\<close>. The unit and the code are
  strings, the empty string standing for a missing argument as well (\<open>unit || ""\<close>, and
  \<open>loincCode\<close> is only tested for truthiness).
\<close>

definition buildVitalObservation ::
  "env \<Rightarrow> world \<Rightarrow> string \<Rightarrow> string \<Rightarrow> string \<Rightarrow> jsval \<Rightarrow> string \<Rightarrow> string
     \<Rightarrow> observation option \<times> world" where
  "buildVitalObservation E w patientId practitionerId codeText quantity unit loincCode =
     (if quantity = JStr [] \<or> quantity = JUndefined \<or> quantity = JNull then (None, w)
      else let (i, w1) = uuidv4 E w;
               (now, w2) = nowISO E w1
      in (Some
           \<lparr>ob_id = i,
            ob_profile = [],
            ob_status = ''final'',
            ob_code =
              (if loincCode \<noteq> []
               then \<lparr>cc_coding =
                       [\<lparr>cd_system = ''http://loinc.org'', cd_code = loincCode,
                         cd_display = Some codeText\<rparr>],
                     cc_text = codeText\<rparr>
               else \<lparr>cc_coding = [], cc_text = codeText\<rparr>),
            ob_subject = refTo patientId,
            ob_performer = [refTo practitionerId],
            ob_effectiveDateTime = now,
            ob_valueString = None,
            ob_valueCodeableConcept = None,
            ob_component = None,
            ob_valueQuantity =
              Some \<lparr>q_value = Number quantity, q_unit = unit,
                    q_system = ''http://unitsofmeasure.org'', q_code = unit\<rparr>,
            ob_text =
              generated (xhtmlDiv (''<p>'' @ codeText @ '': '' @ jsString quantity @ '' '' @
                unit @ ''</p>''))\<rparr>,
          w2))"

section \<open>The application state and generation\<close>

record lifestyleRow =
  li_label :: string
  li_value :: jsval

record vitalsInput =
  hr :: string
  systolic :: string
  diastolic :: string
  temp :: string
  spo2 :: string

record bodyInput =
  height :: string
  weight :: string
  bmi :: string

text \<open>
  The state of the component that generation reads and writes. \<open>form\<close> is \<open>null\<close>, here
  \<open>None\<close>, until a person is selected. \<open>bundleJson\<close> holds the serialised bundle or the
  empty string; the model keeps the bundle itself, \<open>None\<close> for the empty string
  (\<open>JSON.stringify\<close> of an object is never empty).
\<close>

record appState =
  form :: "form option"
  practitioner :: practitionerInput
  physicalText :: string
  generalNotes :: string
  generalPain :: bool
  lifestyle :: "lifestyleRow list"
  vitals :: vitalsInput
  body :: bodyInput
  bundleJson :: "fhirBundle option"
  message :: string

text \<open>The two states of the generation flow, read off the preview.\<close>

datatype phase = Idle | Generated

definition phaseOf :: "appState \<Rightarrow> phase" where
  "phaseOf st = (if bundleJson st = None then Idle else Generated)"

text \<open>
  \<open>const o = buildVitalObservation(...); if (o) observations.push(o);\<close>
\<close>

definition pushVital ::
  "env \<Rightarrow> string \<Rightarrow> string \<Rightarrow> string \<Rightarrow> jsval \<Rightarrow> string \<Rightarrow> string
     \<Rightarrow> observation list \<times> world \<Rightarrow> observation list \<times> world" where
  "pushVital E patientId practitionerId codeText quantity unit loincCode ow =
     (case buildVitalObservation E (snd ow) patientId practitionerId codeText quantity unit
             loincCode of
        (None, w1) \<Rightarrow> (fst ow, w1)
      | (Some ob, w1) \<Rightarrow> (fst ow @ [ob], w1))"

text \<open>
  \<open>if (q) observations.push(buildVitalObservation(..., q, ...));\<close> on a string \<open>q\<close>:
  under the guard the builder does not return \<open>null\<close>, so what is pushed is the resource.
\<close>

definition pushVitalIf ::
  "env \<Rightarrow> string \<Rightarrow> string \<Rightarrow> string \<Rightarrow> string \<Rightarrow> string \<Rightarrow> string
     \<Rightarrow> observation list \<times> world \<Rightarrow> observation list \<times> world" where
  "pushVitalIf E patientId practitionerId codeText q unit loincCode ow =
     (if q \<noteq> [] then pushVital E patientId practitionerId codeText (JStr q) unit loincCode ow
      else ow)"

text \<open>Lines 366 to 378 of \<open>generateBundle\<close>: the vitals and the body measurements.\<close>

definition vitalObservations ::
  "env \<Rightarrow> world \<Rightarrow> string \<Rightarrow> string \<Rightarrow> vitalsInput \<Rightarrow> bodyInput
     \<Rightarrow> observation list \<times> world" where
  "vitalObservations E w pid prid v b =
     (let ow = ([], w);
          ow = pushVital E pid prid ''Heart rate'' (JStr (hr v)) ''beats/min'' ''8867-4'' ow;
          ow = pushVital E pid prid ''Systolic blood pressure'' (JStr (systolic v)) ''mmHg''
                 ''8480-6'' ow;
          ow = pushVital E pid prid ''Diastolic blood pressure'' (JStr (diastolic v)) ''mmHg''
                 ''8462-4'' ow;
          ow = pushVitalIf E pid prid ''Body temperature'' (temp v) ''Cel'' ''8310-5'' ow;
          ow = pushVitalIf E pid prid ''SpO2'' (spo2 v) ''%'' ''59408-5'' ow;
          ow = pushVitalIf E pid prid ''Height'' (height b) ''cm'' ''8302-2'' ow;
          ow = pushVitalIf E pid prid ''Weight'' (weight b) ''kg'' ''29463-7'' ow;
          ow = pushVitalIf E pid prid ''BMI'' (bmi b) ''kg/m2'' ''39156-5'' ow
      in ow)"

text \<open>The body of the loop over \<open>lifestyle\<close>, lines 389 to 392.\<close>

definition lifestyleSkipped :: "lifestyleRow \<Rightarrow> bool" where
  "lifestyleSkipped li =
     (li_label li = [] \<and>
      (li_value li = JStr [] \<or> li_value li = JNull \<or> li_value li = JUndefined))"

definition lifestyleStep ::
  "env \<Rightarrow> string \<Rightarrow> string \<Rightarrow> observation list \<times> world \<Rightarrow> lifestyleRow
     \<Rightarrow> observation list \<times> world" where
  "lifestyleStep E pid prid ow li =
     (if lifestyleSkipped li then ow
      else let (ob, w1) =
                 buildLifestyleObs E (snd ow) pid prid (orElse (li_label li) ''Lifestyle'')
                   (li_value li)
           in (fst ow @ [ob], w1))"

definition lifestyleObservations ::
  "env \<Rightarrow> string \<Rightarrow> string \<Rightarrow> lifestyleRow list \<Rightarrow> observation list \<times> world
     \<Rightarrow> observation list \<times> world" where
  "lifestyleObservations E pid prid rows ow = foldl (lifestyleStep E pid prid) ow rows"

text \<open>An object is truthy: \<open>if (physObs)\<close> and \<open>if (genObs)\<close> take their first branch.\<close>

definition objectTruthy :: "observation \<Rightarrow> bool" where
  "objectTruthy ob = True"

definition entrySection :: "string \<Rightarrow> reference list \<Rightarrow> string option \<Rightarrow> compSection" where
  "entrySection title refs placeholder =
     \<lparr>sc_title = title, sc_entry = Some refs,
      sc_text = map_option (\<lambda>t. generated (xhtmlDiv t)) placeholder\<rparr>"

definition textSection :: "string \<Rightarrow> string \<Rightarrow> compSection" where
  "textSection title fallback =
     \<lparr>sc_title = title, sc_entry = None, sc_text = Some (generated (xhtmlDiv fallback))\<rparr>"

text \<open>Lines 396 to 422: the four sections, in the order they are pushed.\<close>

definition buildSections ::
  "observation list \<Rightarrow> observation \<Rightarrow> observation \<Rightarrow> compSection list" where
  "buildSections observations physObs genObs =
     (let vitalsEntries =
            map (\<lambda>ob. refTo (ob_id ob)) (filter (\<lambda>ob. ob_valueQuantity ob \<noteq> None) observations);
          lifestyleEntries =
            map (\<lambda>ob. refTo (ob_id ob))
              (filter (\<lambda>ob. OBS_LIFESTYLE_PROFILE \<in> set (ob_profile ob)) observations)
      in [if vitalsEntries \<noteq> [] then entrySection ''Vitals'' vitalsEntries None
          else textSection ''Vitals'' ''No vitals recorded'',
          if objectTruthy physObs
          then entrySection ''Physical Activity'' [refTo (ob_id physObs)]
                 (Some ''Physical activity'')
          else textSection ''Physical Activity'' ''No physical activity recorded'',
          if objectTruthy genObs
          then entrySection ''General Assessment'' [refTo (ob_id genObs)]
                 (Some ''General assessment'')
          else textSection ''General Assessment'' ''No general assessment recorded'',
          if lifestyleEntries \<noteq> []
          then entrySection ''Lifestyle'' lifestyleEntries (Some ''Lifestyle'')
          else textSection ''Lifestyle'' ''No lifestyle observations recorded''])"

text \<open>
  The message after a successful run; the dash of the source, outside the code units
  below 256, is written as its three UTF-8 bytes.
\<close>

definition generatedMessage :: string where
  "generatedMessage =
     ''Bundle generated '' @ [CHR 0xE2, CHR 0x80, CHR 0x94] @
     '' copy-paste into Inferno/validator. If any remaining validation errors appear, '' @
     ''paste them and I'' @ [CHR 0x27] @ ''ll patch them exactly.''"

definition bundleEntryOf :: "string \<Rightarrow> resource \<Rightarrow> bundleEntry" where
  "bundleEntryOf i r = \<lparr>fullUrl = urn i, resource = r\<rparr>"

text \<open>
  Lines 363 to 392 of \<open>generateBundle\<close>: the array \<open>observations\<close> after the loop over
  \<open>lifestyle\<close>, with the two observations that the sections refer to by name.
\<close>

definition runObservations ::
  "env \<Rightarrow> world \<Rightarrow> string \<Rightarrow> string \<Rightarrow> appState
     \<Rightarrow> (observation list \<times> observation \<times> observation) \<times> world" where
  "runObservations E w pid prid st =
     (let (obs1, w3) = vitalObservations E w pid prid (vitals st) (body st);
          (physObs, w4) =
            buildPhysicalActivityObs E w3 pid prid (orElse (physicalText st) ''Not provided'');
          obs2 = obs1 @ [physObs];
          (genObs, w5) =
            buildGeneralAssessmentObs E w4 pid prid
              (orElse (generalNotes st) ''Not provided'') (generalPain st);
          obs3 = obs2 @ [genObs];
          (observations, w6) = lifestyleObservations E pid prid (lifestyle st) (obs3, w5)
      in ((observations, physObs, genObs), w6))"

text \<open>
  Lines 360 to 454 of \<open>generateBundle\<close>: what a run builds once the three checks have
  passed.
\<close>

definition buildBundle :: "env \<Rightarrow> world \<Rightarrow> form \<Rightarrow> appState \<Rightarrow> fhirBundle \<times> world" where
  "buildBundle E w f st =
     (let (patientRes, w1) = buildFhirPatient E w f;
          (practitionerRes, w2) = buildPractitioner E w1 (practitioner st);
          pid = pt_id patientRes;
          prid = pr_id practitionerRes;
          ((observations, physObs, genObs), w6) = runObservations E w2 pid prid st;
          (compId, w7) = uuidv4 E w6;
          sections = buildSections observations physObs genObs;
          (date, w8) = nowISO E w7;
          composition =
            \<lparr>co_id = compId,
             co_profile = [NDHM_WELLNESS_COMPOSITION],
             co_status = ''final'',
             co_type =
               \<lparr>cc_coding =
                  [\<lparr>cd_system = ''http://loinc.org'', cd_code = ''11502-2'',
                    cd_display = None\<rparr>],
                cc_text = ''Wellness Record''\<rparr>,
             co_subject = \<lparr>ref = urn pid, ref_display = Some (displayName f)\<rparr>,
             co_date = date,
             co_author = [\<lparr>ref = urn prid, ref_display = Some (name (practitioner st))\<rparr>],
             co_attester = [\<lparr>at_mode = ''official'', at_party = refTo prid\<rparr>],
             co_title = ''Wellness Record'',
             co_section = sections,
             co_text =
               generated (xhtmlDiv (''<h3>Wellness Record - '' @ displayName f @ ''</h3>''))\<rparr>;
          (bundleId, w9) = uuidv4 E w8;
          (identifierValue, w10) = uuidv4 E w9;
          (timestamp, w11) = nowISO E w10
      in (\<lparr>bn_type = ''document'',
           bn_id = bundleId,
           bn_identifier = (''https://nrces.in/ids/bundles'', identifierValue),
           bn_timestamp = timestamp,
           bn_entry =
             [bundleEntryOf (co_id composition) (Composition composition),
              bundleEntryOf pid (Patient patientRes),
              bundleEntryOf prid (Practitioner practitionerRes)] @
             map (\<lambda>ob. bundleEntryOf (ob_id ob) (Observation ob)) observations\<rparr>, w11))"

text \<open>
  \<open>generateBundle\<close>. It first clears the message and the preview; each failed check
  returns after setting its message; a successful run sets the preview and the message.
\<close>

definition generateBundle :: "env \<Rightarrow> world \<Rightarrow> appState \<Rightarrow> appState \<times> world" where
  "generateBundle E w st0 =
     (let st = st0\<lparr>message := [], bundleJson := None\<rparr>
      in case form st of
           None \<Rightarrow> (st\<lparr>message := ''Please select a patient.''\<rparr>, w)
         | Some f \<Rightarrow>
             if \<not> present (selectedAbhaAddress f) \<and> abhaRef f = []
             then (st\<lparr>message := ''Please select ABHA address.''\<rparr>, w)
             else if name (practitioner st) = [] \<or> license (practitioner st) = []
             then (st\<lparr>message := ''Practitioner name and license required.''\<rparr>, w)
             else let (bundle, w1) = buildBundle E w f st
                  in (st\<lparr>bundleJson := Some bundle, message := generatedMessage\<rparr>, w1))"

section \<open>Vocabulary of the properties\<close>

text \<open>
  The layout of a unique identifier in words: 36 characters; a hyphen at the positions
  8, 13, 18 and 23 (counted from 0); at position 14 the version digit, 1 to 5; at
  position 19 the variant digit, 8, 9, a or b in either case; a hexadecimal digit in
  either case everywhere else. A version-4 identifier has this layout with the version
  digit 4.
\<close>

definition uuidClassAt :: "nat \<Rightarrow> string" where
  "uuidClassAt i =
     (if i \<in> {8, 13, 18, 23} then ''-''
      else if i = 14 then ''12345''
      else if i = 19 then ''89abAB''
      else hex_i)"

definition uuidLayout :: "string \<Rightarrow> bool" where
  "uuidLayout s = (length s = 36 \<and> list_all (\<lambda>i. s ! i \<in> set (uuidClassAt i)) [0..<36])"

definition version4Layout :: "string \<Rightarrow> bool" where
  "version4Layout s = (uuidLayout s \<and> s ! 14 = CHR ''4'')"


text \<open>
  The three preconditions of generation in the specification's words: a person is
  selected, the person has an external health id or a selected external health address,
  and the attester's name and license are not empty.
\<close>

definition preconditionsHold :: "appState \<Rightarrow> bool" where
  "preconditionsHold st =
     (case form st of
        None \<Rightarrow> False
      | Some f \<Rightarrow>
          (abhaRef f \<noteq> [] \<or> present (selectedAbhaAddress f)) \<and>
          name (practitioner st) \<noteq> [] \<and> license (practitioner st) \<noteq> [])"

text \<open>
  The two membership tests of the sections: an observation with a numeric quantity, and
  an observation that declares the lifestyle profile.
\<close>

definition isVital :: "observation \<Rightarrow> bool" where
  "isVital ob = (ob_valueQuantity ob \<noteq> None)"

definition isLifestyle :: "observation \<Rightarrow> bool" where
  "isLifestyle ob = (OBS_LIFESTYLE_PROFILE \<in> set (ob_profile ob))"

text \<open>
  The eight measurements that generation offers to \<open>buildVitalObservation\<close>, in the order
  of the calls: label, entered value, unit and code. A vital observation is summarised
  by its label and its quantity; a measurement with a value is expected to give the
  quantity of that value in its unit.
\<close>

definition vitalInputs ::
  "vitalsInput \<Rightarrow> bodyInput \<Rightarrow> (string \<times> string \<times> string \<times> string) list" where
  "vitalInputs v b =
     [(''Heart rate'', hr v, ''beats/min'', ''8867-4''),
      (''Systolic blood pressure'', systolic v, ''mmHg'', ''8480-6''),
      (''Diastolic blood pressure'', diastolic v, ''mmHg'', ''8462-4''),
      (''Body temperature'', temp v, ''Cel'', ''8310-5''),
      (''SpO2'', spo2 v, ''%'', ''59408-5''),
      (''Height'', height b, ''cm'', ''8302-2''),
      (''Weight'', weight b, ''kg'', ''29463-7''),
      (''BMI'', bmi b, ''kg/m2'', ''39156-5'')]"

definition vitalSummary :: "observation \<Rightarrow> string \<times> quantity option" where
  "vitalSummary ob = (cc_text (ob_code ob), ob_valueQuantity ob)"

definition expectedVital ::
  "string \<times> string \<times> string \<times> string \<Rightarrow> string \<times> quantity option" where
  "expectedVital i =
     (case i of (lbl, q, unit, code) \<Rightarrow>
        (lbl, Some \<lparr>q_value = Number (JStr q), q_unit = unit,
                    q_system = ''http://unitsofmeasure.org'', q_code = unit\<rparr>))"

text \<open>
  A lifestyle observation is summarised by its label and its value text; a row that is
  kept is expected to give its label, or "Lifestyle" for an empty one, and the rendering
  of its value.
\<close>

definition lifestyleSummary :: "observation \<Rightarrow> string \<times> string option" where
  "lifestyleSummary ob = (cc_text (ob_code ob), map_option cc_text (ob_valueCodeableConcept ob))"

definition expectedLifestyle :: "lifestyleRow \<Rightarrow> string \<times> string option" where
  "expectedLifestyle li =
     (orElse (li_label li) ''Lifestyle'', Some (lifestyleText (li_value li)))"

text \<open>
  The invariant of the array \<open>observations\<close> while it is built, from the state in which
  \<open>n0\<close> identities had been coined: the identities of its elements are the identities
  coined since then, in that order, and every element refers to the person as its subject
  and to the attester as its only performer.
\<close>

definition obsInv ::
  "env \<Rightarrow> string \<Rightarrow> string \<Rightarrow> nat \<Rightarrow> observation list \<times> world \<Rightarrow> bool" where
  "obsInv E pid prid n0 ow =
     (n0 \<le> uuidCalls (snd ow) \<and>
      map ob_id (fst ow) = map (uuids E) [n0..<uuidCalls (snd ow)] \<and>
      list_all (\<lambda>ob. ob_subject ob = refTo pid \<and> ob_performer ob = [refTo prid]) (fst ow))"

text \<open>The array after the pushes for the given measurements.\<close>

definition vitalsOk ::
  "env \<Rightarrow> string \<Rightarrow> string \<Rightarrow> nat \<Rightarrow> (string \<times> string \<times> string \<times> string) list
     \<Rightarrow> observation list \<times> world \<Rightarrow> bool" where
  "vitalsOk E pid prid n0 inputs ow =
     (obsInv E pid prid n0 ow \<and>
      map vitalSummary (fst ow) = map expectedVital (filter (\<lambda>i. fst (snd i) \<noteq> []) inputs) \<and>
      list_all (\<lambda>ob. isVital ob \<and> \<not> isLifestyle ob) (fst ow))"

text \<open>The array after the loop has run over the given rows, started on \<open>pre\<close>.\<close>

definition lifestyleOk ::
  "env \<Rightarrow> string \<Rightarrow> string \<Rightarrow> nat \<Rightarrow> observation list \<Rightarrow> lifestyleRow list
     \<Rightarrow> observation list \<times> world \<Rightarrow> bool" where
  "lifestyleOk E pid prid n0 pre rows ow =
     (obsInv E pid prid n0 ow \<and>
      (\<exists>ls. fst ow = pre @ ls \<and>
         map lifestyleSummary ls =
           map expectedLifestyle (filter (\<lambda>li. \<not> lifestyleSkipped li) rows) \<and>
         list_all (\<lambda>ob. isLifestyle ob \<and> \<not> isVital ob) ls))"

text \<open>
  The array at the end of \<open>runObservations\<close>: the vital observations, the physical
  activity and the general assessment observation, then the lifestyle observations.
\<close>

definition observationsOk ::
  "env \<Rightarrow> string \<Rightarrow> string \<Rightarrow> nat \<Rightarrow> appState
     \<Rightarrow> (observation list \<times> observation \<times> observation) \<times> world \<Rightarrow> bool" where
  "observationsOk E pid prid n0 st r =
     (case r of ((observations, physObs, genObs), w6) \<Rightarrow>
        obsInv E pid prid n0 (observations, w6) \<and>
        (\<exists>vit ls.
           observations = vit @ [physObs, genObs] @ ls \<and>
           map vitalSummary vit =
             map expectedVital
               (filter (\<lambda>i. fst (snd i) \<noteq> []) (vitalInputs (vitals st) (body st))) \<and>
           list_all (\<lambda>ob. isVital ob \<and> \<not> isLifestyle ob) vit \<and>
           \<not> isVital physObs \<and> \<not> isLifestyle physObs \<and>
           \<not> isVital genObs \<and> \<not> isLifestyle genObs \<and>
           map lifestyleSummary ls =
             map expectedLifestyle (filter (\<lambda>li. \<not> lifestyleSkipped li) (lifestyle st)) \<and>
           list_all (\<lambda>ob. isLifestyle ob \<and> \<not> isVital ob) ls))"

text \<open>
  Reading a bundle: the identity of a resource, the reference strings a resource holds
  (the composition's subject, authors, attester parties and section entries; an
  observation's subject and performers), all reference strings of a bundle, and the
  entries that a reference string resolves to, by the entry's address being the
  \<open>urn:uuid:\<close> of its resource's identity.
\<close>

fun idOf :: "resource \<Rightarrow> string" where
  "idOf (Composition c) = co_id c"
| "idOf (Patient p) = pt_id p"
| "idOf (Practitioner p) = pr_id p"
| "idOf (Observation ob) = ob_id ob"

definition sectionRefs :: "compSection \<Rightarrow> string list" where
  "sectionRefs s = (case sc_entry s of None \<Rightarrow> [] | Some rs \<Rightarrow> map ref rs)"

fun resourceRefs :: "resource \<Rightarrow> string list" where
  "resourceRefs (Composition c) =
     ref (co_subject c) # map ref (co_author c) @ map (\<lambda>a. ref (at_party a)) (co_attester c) @
     concat (map sectionRefs (co_section c))"
| "resourceRefs (Patient p) = []"
| "resourceRefs (Practitioner p) = []"
| "resourceRefs (Observation ob) = ref (ob_subject ob) # map ref (ob_performer ob)"

definition bundleRefs :: "fhirBundle \<Rightarrow> string list" where
  "bundleRefs b = concat (map (\<lambda>e. resourceRefs (resource e)) (bn_entry b))"

definition resolutions :: "fhirBundle \<Rightarrow> string \<Rightarrow> bundleEntry list" where
  "resolutions b r =
     filter (\<lambda>e. fullUrl e = r \<and> fullUrl e = urn (idOf (resource e))) (bn_entry b)"

text \<open>
  A section as the specification wants it: with an entry list, the list is not empty
  and, unless the section is Vitals, a narrative comes with it; without an entry list,
  the narrative says that nothing was recorded.
\<close>

definition nothingRecorded :: "string list" where
  "nothingRecorded =
     map xhtmlDiv
       [''No vitals recorded'', ''No physical activity recorded'',
        ''No general assessment recorded'', ''No lifestyle observations recorded'']"

definition sectionOk :: "compSection \<Rightarrow> bool" where
  "sectionOk s =
     (case sc_entry s of
        Some refs \<Rightarrow>
          refs \<noteq> [] \<and>
          (sc_title s = ''Vitals'' \<or>
           (case sc_text s of Some t \<Rightarrow> n_status t = ''generated'' \<and> n_div t \<noteq> [] | None \<Rightarrow> False))
      | None \<Rightarrow>
          (case sc_text s of
             Some t \<Rightarrow> n_status t = ''generated'' \<and> n_div t \<in> set nothingRecorded
           | None \<Rightarrow> False))"

section \<open>Example inputs\<close>





definition constantUuids :: env where
  "constantUuids =
     \<lparr>uuids = (\<lambda>n. ''1b9d6bcd-bbfd-4b2d-9b5d-ab8dfbbd4bed''),
      dates = (\<lambda>n. ''2024-05-01T10:00:00.000Z'')\<rparr>"

definition countingUuids :: env where
  "countingUuids =
     \<lparr>uuids = (\<lambda>n. ''id-'' @ replicate n CHR ''x''),
      dates = (\<lambda>n. ''2024-05-01T10:00:00.000Z'')\<rparr>"

definition startWorld :: world where
  "startWorld = \<lparr>uuidCalls = 0, dateCalls = 0\<rparr>"

definition exampleForm :: form where
  "exampleForm =
     \<lparr>api = JNull, resourceId = ''123E4567-E89B-42D3-A456-426614174000'',
      displayName = ''Asha Rao'', gender = ''female'', birthDate = ''1990-08-15'',
      mobile = ''9999999999'', address = ''Pune'', abhaRef = ''AB1234'',
      abhaAddresses = [''asha@abdm''], selectedAbhaAddress = Some ''asha@abdm'',
      mrn = ''42''\<rparr>"

definition exampleState :: appState where
  "exampleState =
     \<lparr>form = Some exampleForm,
      practitioner = GLOBAL_PRACTITIONER,
      physicalText = ''Walks 30 minutes a day'',
      generalNotes = [],
      generalPain = False,
      lifestyle =
        [\<lparr>li_label = ''Smoking'', li_value = JBool False\<rparr>,
         \<lparr>li_label = [], li_value = JStr []\<rparr>,
         \<lparr>li_label = [], li_value = JBool False\<rparr>,
         \<lparr>li_label = ''Diet'', li_value = JStr []\<rparr>],
      vitals = \<lparr>hr = ''72'', systolic = [], diastolic = [], temp = [], spo2 = ''98''\<rparr>,
      body = \<lparr>height = [], weight = [], bmi = []\<rparr>,
      bundleJson = None,
      message = []\<rparr>"

text \<open>An attester without a license.\<close>

definition unlicensedState :: appState where
  "unlicensedState = exampleState\<lparr>practitioner := GLOBAL_PRACTITIONER\<lparr>license := []\<rparr>\<rparr>"



section \<open>Properties of the string helpers\<close>

























subsection \<open>Date repair\<close>




section \<open>The person resource\<close>

lemma lowerChar_hex: "lowerChar c \<in> set hex_i \<Longrightarrow> c \<in> set hex_i"
  by (simp add: lowerChar_def hex_i_def upperCaseLetters_def lowerCaseLetters_def split: if_splits)
lemma lowerChar_dash: "lowerChar c \<in> set ''-'' \<Longrightarrow> c \<in> set ''-''"
  by (simp add: lowerChar_def upperCaseLetters_def lowerCaseLetters_def split: if_splits)
lemma lowerChar_version: "lowerChar c \<in> set ''12345'' \<Longrightarrow> c \<in> set ''12345''"
  by (simp add: lowerChar_def upperCaseLetters_def lowerCaseLetters_def split: if_splits)
lemma lowerChar_variant: "lowerChar c \<in> set ''89abAB'' \<Longrightarrow> c \<in> set ''89abAB''"
  by (simp add: lowerChar_def upperCaseLetters_def lowerCaseLetters_def split: if_splits)

lemma uuidPattern_classes: "set uuidPattern = {hex_i, ''-'', ''12345'', ''89abAB''}"
  by (auto simp: uuidPattern_def)

lemma lowerChar_uuid_class:
  "cl \<in> set uuidPattern \<Longrightarrow> lowerChar c \<in> set cl \<Longrightarrow> c \<in> set cl"
  unfolding uuidPattern_classes
  using lowerChar_hex lowerChar_dash lowerChar_version lowerChar_variant by blast

lemma matchClasses_lower:
  assumes "matchClasses uuidPattern (toLowerCase s)"
  shows "matchClasses uuidPattern s"
proof -
  from assms have "list_all2 (\<lambda>cl c. lowerChar c \<in> set cl) uuidPattern s"
    by (simp add: matchClasses_def toLowerCase_def list_all2_map2)
  then have "list_all2 (\<lambda>cl c. c \<in> set cl) uuidPattern s"
    unfolding list_all2_conv_all_nth by (auto intro: lowerChar_uuid_class)
  then show ?thesis by (simp add: matchClasses_def)
qed

text \<open>
  \<open>isUuid\<close> accepts the version digits 1 to 5, in either case of the letters, not only
  the version 4 that \<open>uuidv4()\<close> produces.
\<close>

lemma isUuid_versions:
  "isUuid (JStr ''123e4567-e89b-12d3-a456-426614174000'') \<and>
   isUuid (JStr ''123E4567-E89B-42D3-A456-426614174000'') \<and>
   \<not> isUuid (JStr ''123e4567-e89b-62d3-a456-426614174000'') \<and>
   \<not> isUuid (JStr ''123e4567-e89b-42d3-c456-426614174000'')"
  by code_simp

lemma isUuid_empty: "\<not> isUuid (JStr [])"
  by (simp add: matchClasses_def uuidPattern_def)

lemma buildFhirPatient_id:
  "pt_id (fst (buildFhirPatient E w f)) =
     (if isUuid (JStr (resourceId f)) then toLowerCase (resourceId f) else uuids E (uuidCalls w))"
  "snd (buildFhirPatient E w f) =
     (if isUuid (JStr (resourceId f)) then w else w\<lparr>uuidCalls := Suc (uuidCalls w)\<rparr>)"
  using isUuid_empty
  by (auto simp: buildFhirPatient_def uuidv4_def Let_def split: prod.splits)


text \<open>
  The person resource's identity in terms of the guard \<open>isUuid\<close> of the source.
\<close>

lemma buildFhirPatient_reuse:
  assumes fresh: "isUuid (JStr (uuids E (uuidCalls w)))"
  shows "(isUuid (JStr (resourceId f)) \<longrightarrow>
            pt_id (fst (buildFhirPatient E w f)) = toLowerCase (resourceId f) \<and>
            snd (buildFhirPatient E w f) = w) \<and>
         (\<not> isUuid (JStr (resourceId f)) \<longrightarrow>
            pt_id (fst (buildFhirPatient E w f)) = uuids E (uuidCalls w) \<and>
            uuidCalls (snd (buildFhirPatient E w f)) = Suc (uuidCalls w) \<and>
            pt_id (fst (buildFhirPatient E w f)) \<noteq> resourceId f \<and>
            pt_id (fst (buildFhirPatient E w f)) \<noteq> toLowerCase (resourceId f))"
proof (intro conjI impI)
  assume n: "\<not> isUuid (JStr (resourceId f))"
  show "pt_id (fst (buildFhirPatient E w f)) \<noteq> resourceId f"
    using n fresh by (auto simp: buildFhirPatient_id)
  show "pt_id (fst (buildFhirPatient E w f)) \<noteq> toLowerCase (resourceId f)"
  proof
    assume "pt_id (fst (buildFhirPatient E w f)) = toLowerCase (resourceId f)"
    with n have "uuids E (uuidCalls w) = toLowerCase (resourceId f)"
      by (simp add: buildFhirPatient_id)
    with fresh have "matchClasses uuidPattern (toLowerCase (resourceId f))" by simp
    then have "isUuid (JStr (resourceId f))" by (simp add: matchClasses_lower)
    with n show False by simp
  qed
qed (simp_all add: buildFhirPatient_id)


text \<open>
  The regular expression of \<open>isUuid\<close> is the layout in words.
\<close>

lemma uuidPattern_positions: "uuidPattern = map uuidClassAt [0..<36]"
  by code_simp

lemma matchClasses_positions:
  "matchClasses (map f [0..<n]) s \<longleftrightarrow> length s = n \<and> list_all (\<lambda>i. s ! i \<in> set (f i)) [0..<n]"
  by (auto simp: matchClasses_def list_all2_conv_all_nth list_all_iff)

lemma isUuid_layout: "isUuid (JStr s) \<longleftrightarrow> uuidLayout s"
  by (simp add: uuidPattern_positions matchClasses_positions uuidLayout_def)

text \<open>
  C6, as the claim states it, fails: a seed that is a well-formed identifier of version 1,
  not of version 4, is reused in lower case and no identity is coined.
\<close>

theorem patient_identity_version1_counterexample:
  "uuidLayout ''123e4567-e89b-12d3-a456-426614174000'' \<and>
   \<not> version4Layout ''123e4567-e89b-12d3-a456-426614174000'' \<and>
   pt_id (fst (buildFhirPatient constantUuids startWorld
                 (exampleForm\<lparr>resourceId := ''123e4567-e89b-12d3-a456-426614174000''\<rparr>))) =
     ''123e4567-e89b-12d3-a456-426614174000'' \<and>
   snd (buildFhirPatient constantUuids startWorld
          (exampleForm\<lparr>resourceId := ''123e4567-e89b-12d3-a456-426614174000''\<rparr>)) = startWorld"
  by code_simp

text \<open>
  C6, amended. With \<open>uuidv4()\<close> returning a well-formed identifier, the person
  resource's identity is the lower-cased seed, and no identity is coined, exactly when
  the seed has the layout of a unique identifier of any version 1 to 5: 36 characters,
  hyphens at the positions 8, 13, 18 and 23, the version digit 1 to 5, the variant digit
  8, 9, a or b, hexadecimal digits elsewhere, letters in either case. For every other
  seed the identity is the newly coined identifier, which is neither the seed nor the
  lower-cased seed.
\<close>

theorem patient_identity_reuse_or_coin:
  assumes fresh: "uuidLayout (uuids E (uuidCalls w))"
  shows "(uuidLayout (resourceId f) \<longrightarrow>
            pt_id (fst (buildFhirPatient E w f)) = toLowerCase (resourceId f) \<and>
            snd (buildFhirPatient E w f) = w) \<and>
         (\<not> uuidLayout (resourceId f) \<longrightarrow>
            pt_id (fst (buildFhirPatient E w f)) = uuids E (uuidCalls w) \<and>
            uuidCalls (snd (buildFhirPatient E w f)) = Suc (uuidCalls w) \<and>
            pt_id (fst (buildFhirPatient E w f)) \<noteq> resourceId f \<and>
            pt_id (fst (buildFhirPatient E w f)) \<noteq> toLowerCase (resourceId f))"
  using fresh unfolding isUuid_layout [symmetric] by (rule buildFhirPatient_reuse)

theorem patient_identity_reuse_or_coin_witness:
  "uuidLayout (uuids constantUuids (uuidCalls startWorld)) \<and>
   uuidLayout (resourceId exampleForm) \<and>
   pt_id (fst (buildFhirPatient constantUuids startWorld exampleForm)) =
     ''123e4567-e89b-42d3-a456-426614174000'' \<and>
   \<not> uuidLayout (resourceId (exampleForm\<lparr>resourceId := ''patient-17''\<rparr>)) \<and>
   pt_id (fst (buildFhirPatient constantUuids startWorld
                 (exampleForm\<lparr>resourceId := ''patient-17''\<rparr>))) =
     ''1b9d6bcd-bbfd-4b2d-9b5d-ab8dfbbd4bed''"
proof -
  have h: "uuidLayout (uuids constantUuids (uuidCalls startWorld))" by code_simp
  have a: "uuidLayout (resourceId exampleForm)" by code_simp
  have b: "\<not> uuidLayout (resourceId (exampleForm\<lparr>resourceId := ''patient-17''\<rparr>))"
    by code_simp
  have l: "toLowerCase (resourceId exampleForm) = ''123e4567-e89b-42d3-a456-426614174000''"
    by code_simp
  have u: "uuids constantUuids (uuidCalls startWorld) = ''1b9d6bcd-bbfd-4b2d-9b5d-ab8dfbbd4bed''"
    by code_simp
  from patient_identity_reuse_or_coin [OF h, of exampleForm] a
  have "pt_id (fst (buildFhirPatient constantUuids startWorld exampleForm)) =
      toLowerCase (resourceId exampleForm)" by blast
  moreover
  from patient_identity_reuse_or_coin [OF h, of "exampleForm\<lparr>resourceId := ''patient-17''\<rparr>"] b
  have "pt_id (fst (buildFhirPatient constantUuids startWorld
                 (exampleForm\<lparr>resourceId := ''patient-17''\<rparr>))) =
      uuids constantUuids (uuidCalls startWorld)" by blast
  ultimately show ?thesis using h a b l u by simp
qed


lemma buildFhirPatient_identifier:
  "map identifierSummary (pt_identifier (fst (buildFhirPatient E w f))) =
     (if presentSources f = []
      then [([''PI''], ''generated-id'', pt_id (fst (buildFhirPatient E w f)))]
      else presentSources f)"
  by (simp add: buildFhirPatient_def Let_def presentSources_def identifierSummary_def
      v2Type_def split: prod.splits)

lemma buildFhirPatient_identifier_types:
  "i \<in> set (pt_identifier (fst (buildFhirPatient E w f))) \<Longrightarrow>
     \<exists>c d. cc_coding (id_type i) = [\<lparr>cd_system = V2_0203, cd_code = c, cd_display = Some d\<rparr>]
        \<and> d \<noteq> [] \<and> cc_text (id_type i) \<noteq> []"
  by (auto simp: buildFhirPatient_def Let_def v2Type_def split: prod.splits if_splits)

text \<open>
  C3. The person resource's identifier list is never empty. It holds one entry for each
  identity source that is present, in the order health id (\<open>PI\<close>, "ABHA Number"),
  selected health address (\<open>PN\<close>, "ABHA Address"), record number (\<open>MR\<close>, "MRN"); when
  none is present it holds the single entry labelled "generated-id" whose value is the
  resource's own identity. Every entry carries exactly one type coding, of the system
  \<open>V2_0203\<close>, with a non-empty display, and a non-empty type label.
\<close>

theorem patient_identifier_never_empty:
  "pt_identifier (fst (buildFhirPatient E w f)) \<noteq> [] \<and>
   map identifierSummary (pt_identifier (fst (buildFhirPatient E w f))) =
     (if presentSources f = []
      then [([''PI''], ''generated-id'', pt_id (fst (buildFhirPatient E w f)))]
      else presentSources f) \<and>
   (\<forall>i \<in> set (pt_identifier (fst (buildFhirPatient E w f))).
      \<exists>c d. cc_coding (id_type i) = [\<lparr>cd_system = V2_0203, cd_code = c, cd_display = Some d\<rparr>]
        \<and> d \<noteq> [] \<and> cc_text (id_type i) \<noteq> [])"
proof (intro conjI ballI)
  show "map identifierSummary (pt_identifier (fst (buildFhirPatient E w f))) =
     (if presentSources f = []
      then [([''PI''], ''generated-id'', pt_id (fst (buildFhirPatient E w f)))]
      else presentSources f)"
    by (rule buildFhirPatient_identifier)
  then have "map identifierSummary (pt_identifier (fst (buildFhirPatient E w f))) \<noteq> []"
    by (simp split: if_splits)
  then show "pt_identifier (fst (buildFhirPatient E w f)) \<noteq> []" by auto
next
  fix i assume "i \<in> set (pt_identifier (fst (buildFhirPatient E w f)))"
  then show "\<exists>c d. cc_coding (id_type i) =
        [\<lparr>cd_system = V2_0203, cd_code = c, cd_display = Some d\<rparr>]
        \<and> d \<noteq> [] \<and> cc_text (id_type i) \<noteq> []"
    by (rule buildFhirPatient_identifier_types)
qed

theorem patient_identifier_never_empty_witness:
  "map identifierSummary
     (pt_identifier (fst (buildFhirPatient constantUuids startWorld exampleForm))) =
     [([''PI''], ''ABHA Number'', ''AB1234''), ([''PN''], ''ABHA Address'', ''asha@abdm''),
      ([''MR''], ''MRN'', ''42'')] \<and>
   map identifierSummary
     (pt_identifier (fst (buildFhirPatient constantUuids startWorld
        (exampleForm\<lparr>abhaRef := [], selectedAbhaAddress := None, mrn := []\<rparr>)))) =
     [([''PI''], ''generated-id'', ''123e4567-e89b-42d3-a456-426614174000'')] \<and>
   hd (pt_identifier (fst (buildFhirPatient constantUuids startWorld exampleForm)))
     \<in> set (pt_identifier (fst (buildFhirPatient constantUuids startWorld exampleForm))) \<and>
   (\<exists>c d. cc_coding (id_type
        (hd (pt_identifier (fst (buildFhirPatient constantUuids startWorld exampleForm))))) =
      [\<lparr>cd_system = V2_0203, cd_code = c, cd_display = Some d\<rparr>] \<and> d \<noteq> [])"
proof -
  let ?g = "exampleForm\<lparr>abhaRef := [], selectedAbhaAddress := None, mrn := []\<rparr>"
  let ?ids = "pt_identifier (fst (buildFhirPatient constantUuids startWorld exampleForm))"
  have s1: "presentSources exampleForm =
      [([''PI''], ''ABHA Number'', ''AB1234''), ([''PN''], ''ABHA Address'', ''asha@abdm''),
       ([''MR''], ''MRN'', ''42'')]" by code_simp
  have s2: "presentSources ?g = []" by code_simp
  have i2: "pt_id (fst (buildFhirPatient constantUuids startWorld ?g)) =
      ''123e4567-e89b-42d3-a456-426614174000''" by code_simp
  note t1 = patient_identifier_never_empty [of constantUuids startWorld exampleForm]
  note t2 = patient_identifier_never_empty [of constantUuids startWorld ?g]
  from t1 have ne: "?ids \<noteq> []" by blast
  then have mem: "hd ?ids \<in> set ?ids" by simp
  from t1 mem have ex: "\<exists>c d. cc_coding (id_type (hd ?ids)) =
      [\<lparr>cd_system = V2_0203, cd_code = c, cd_display = Some d\<rparr>] \<and> d \<noteq> []" by blast
  from t1 s1 have r1: "map identifierSummary ?ids =
      [([''PI''], ''ABHA Number'', ''AB1234''), ([''PN''], ''ABHA Address'', ''asha@abdm''),
       ([''MR''], ''MRN'', ''42'')]" by simp
  from t2 s2 i2 have r2: "map identifierSummary
      (pt_identifier (fst (buildFhirPatient constantUuids startWorld ?g))) =
      [([''PI''], ''generated-id'', ''123e4567-e89b-42d3-a456-426614174000'')]" by simp
  from r1 r2 mem ex show ?thesis by blast
qed

section \<open>Address extraction\<close>






lemma stringify_obj_nonempty: "stringify (JObj kvs) \<noteq> []"
  by simp











section \<open>Generation\<close>

lemma buildVitalObservation_None:
  "quantity = JStr [] \<or> quantity = JUndefined \<or> quantity = JNull \<Longrightarrow>
     buildVitalObservation E w pid prid lbl quantity unit code = (None, w)"
  by (simp add: buildVitalObservation_def)

lemma buildVitalObservation_Some:
  assumes "quantity \<noteq> JStr []" "quantity \<noteq> JUndefined" "quantity \<noteq> JNull"
  shows "\<exists>ob. buildVitalObservation E w pid prid lbl quantity unit code =
           (Some ob, w\<lparr>uuidCalls := Suc (uuidCalls w), dateCalls := Suc (dateCalls w)\<rparr>) \<and>
         ob_id ob = uuids E (uuidCalls w) \<and>
         ob_subject ob = refTo pid \<and> ob_performer ob = [refTo prid] \<and>
         ob_profile ob = [] \<and> cc_text (ob_code ob) = lbl \<and>
         ob_valueQuantity ob =
           Some \<lparr>q_value = Number quantity, q_unit = unit,
                 q_system = ''http://unitsofmeasure.org'', q_code = unit\<rparr>"
  using assms by (simp add: buildVitalObservation_def uuidv4_def nowISO_def)

lemma obsInv_push:
  assumes "obsInv E pid prid n0 ow"
    and "ob_id ob = uuids E (uuidCalls (snd ow))"
    and "uuidCalls w1 = Suc (uuidCalls (snd ow))"
    and "ob_subject ob = refTo pid" "ob_performer ob = [refTo prid]"
  shows "obsInv E pid prid n0 (fst ow @ [ob], w1)"
  using assms by (simp add: obsInv_def)

lemma pushVital_ok:
  assumes "vitalsOk E pid prid n0 inputs ow"
  shows "vitalsOk E pid prid n0 (inputs @ [(lbl, q, unit, code)])
           (pushVital E pid prid lbl (JStr q) unit code ow)"
proof (cases "q = []")
  case True
  then have "pushVital E pid prid lbl (JStr q) unit code ow = ow"
    by (simp add: pushVital_def buildVitalObservation_None)
  with assms True show ?thesis by (simp add: vitalsOk_def)
next
  case False
  then obtain ob where
    b: "buildVitalObservation E (snd ow) pid prid lbl (JStr q) unit code =
       (Some ob, (snd ow)\<lparr>uuidCalls := Suc (uuidCalls (snd ow)),
                          dateCalls := Suc (dateCalls (snd ow))\<rparr>)"
    and p: "ob_id ob = uuids E (uuidCalls (snd ow))"
      "ob_subject ob = refTo pid" "ob_performer ob = [refTo prid]"
      "ob_profile ob = []" "cc_text (ob_code ob) = lbl"
      "ob_valueQuantity ob =
           Some \<lparr>q_value = Number (JStr q), q_unit = unit,
                 q_system = ''http://unitsofmeasure.org'', q_code = unit\<rparr>"
    using buildVitalObservation_Some [of "JStr q" E "snd ow" pid prid lbl unit code] by auto
  let ?w1 = "(snd ow)\<lparr>uuidCalls := Suc (uuidCalls (snd ow)), dateCalls := Suc (dateCalls (snd ow))\<rparr>"
  have e: "pushVital E pid prid lbl (JStr q) unit code ow = (fst ow @ [ob], ?w1)"
    by (simp add: pushVital_def b)
  have "obsInv E pid prid n0 (fst ow @ [ob], ?w1)"
    using assms p by (intro obsInv_push) (simp_all add: vitalsOk_def)
  moreover have "vitalSummary ob = expectedVital (lbl, q, unit, code)"
    using p by (simp add: vitalSummary_def expectedVital_def)
  moreover have "isVital ob \<and> \<not> isLifestyle ob"
    using p by (simp add: isVital_def isLifestyle_def)
  ultimately show ?thesis
    using assms False unfolding e by (simp add: vitalsOk_def)
qed

lemma pushVitalIf_ok:
  assumes "vitalsOk E pid prid n0 inputs ow"
  shows "vitalsOk E pid prid n0 (inputs @ [(lbl, q, unit, code)])
           (pushVitalIf E pid prid lbl q unit code ow)"
proof (cases "q = []")
  case True
  with assms show ?thesis by (simp add: pushVitalIf_def vitalsOk_def)
next
  case False
  with pushVital_ok [OF assms] show ?thesis by (simp add: pushVitalIf_def)
qed

lemma vitalsOk_start: "vitalsOk E pid prid (uuidCalls w) [] ([], w)"
  by (simp add: vitalsOk_def obsInv_def)

lemma vitalObservations_ok:
  "vitalsOk E pid prid (uuidCalls w) (vitalInputs v b) (vitalObservations E w pid prid v b)"
proof -
  note s = pushVital_ok pushVitalIf_ok
  have "vitalsOk E pid prid (uuidCalls w)
     ([] @ [(''Heart rate'', hr v, ''beats/min'', ''8867-4'')] @
      [(''Systolic blood pressure'', systolic v, ''mmHg'', ''8480-6'')] @
      [(''Diastolic blood pressure'', diastolic v, ''mmHg'', ''8462-4'')] @
      [(''Body temperature'', temp v, ''Cel'', ''8310-5'')] @
      [(''SpO2'', spo2 v, ''%'', ''59408-5'')] @
      [(''Height'', height b, ''cm'', ''8302-2'')] @
      [(''Weight'', weight b, ''kg'', ''29463-7'')] @
      [(''BMI'', bmi b, ''kg/m2'', ''39156-5'')])
     (vitalObservations E w pid prid v b)"
    unfolding vitalObservations_def Let_def append_assoc [symmetric]
    by (intro s vitalsOk_start)
  then show ?thesis by (simp add: vitalInputs_def)
qed

lemma buildLifestyleObs_props:
  "snd (buildLifestyleObs E w pid prid lbl val) =
     w\<lparr>uuidCalls := Suc (uuidCalls w), dateCalls := Suc (dateCalls w)\<rparr>"
  "ob_id (fst (buildLifestyleObs E w pid prid lbl val)) = uuids E (uuidCalls w)"
  "ob_subject (fst (buildLifestyleObs E w pid prid lbl val)) = refTo pid"
  "ob_performer (fst (buildLifestyleObs E w pid prid lbl val)) = [refTo prid]"
  "ob_profile (fst (buildLifestyleObs E w pid prid lbl val)) = [OBS_LIFESTYLE_PROFILE]"
  "ob_valueQuantity (fst (buildLifestyleObs E w pid prid lbl val)) = None"
  "cc_text (ob_code (fst (buildLifestyleObs E w pid prid lbl val))) = orElse lbl ''Lifestyle''"
  "ob_valueCodeableConcept (fst (buildLifestyleObs E w pid prid lbl val)) =
     Some \<lparr>cc_coding = [], cc_text = lifestyleText val\<rparr>"
  by (simp_all add: buildLifestyleObs_def uuidv4_def nowISO_def Let_def)

lemma buildPhysicalActivityObs_props:
  "snd (buildPhysicalActivityObs E w pid prid txt) =
     w\<lparr>uuidCalls := Suc (uuidCalls w), dateCalls := Suc (dateCalls w)\<rparr>"
  "ob_id (fst (buildPhysicalActivityObs E w pid prid txt)) = uuids E (uuidCalls w)"
  "ob_subject (fst (buildPhysicalActivityObs E w pid prid txt)) = refTo pid"
  "ob_performer (fst (buildPhysicalActivityObs E w pid prid txt)) = [refTo prid]"
  "ob_profile (fst (buildPhysicalActivityObs E w pid prid txt)) = [OBS_PHYSICAL_PROFILE]"
  "ob_valueQuantity (fst (buildPhysicalActivityObs E w pid prid txt)) = None"
  by (simp_all add: buildPhysicalActivityObs_def uuidv4_def nowISO_def)

lemma buildGeneralAssessmentObs_props:
  "snd (buildGeneralAssessmentObs E w pid prid notes pain) =
     w\<lparr>uuidCalls := Suc (uuidCalls w), dateCalls := Suc (dateCalls w)\<rparr>"
  "ob_id (fst (buildGeneralAssessmentObs E w pid prid notes pain)) = uuids E (uuidCalls w)"
  "ob_subject (fst (buildGeneralAssessmentObs E w pid prid notes pain)) = refTo pid"
  "ob_performer (fst (buildGeneralAssessmentObs E w pid prid notes pain)) = [refTo prid]"
  "ob_profile (fst (buildGeneralAssessmentObs E w pid prid notes pain)) = [OBS_GENERAL_PROFILE]"
  "ob_valueQuantity (fst (buildGeneralAssessmentObs E w pid prid notes pain)) = None"
  by (simp_all add: buildGeneralAssessmentObs_def uuidv4_def nowISO_def Let_def)

lemma profiles_differ:
  "OBS_PHYSICAL_PROFILE \<noteq> OBS_LIFESTYLE_PROFILE" "OBS_GENERAL_PROFILE \<noteq> OBS_LIFESTYLE_PROFILE"
  by (simp_all add: OBS_PHYSICAL_PROFILE_def OBS_GENERAL_PROFILE_def OBS_LIFESTYLE_PROFILE_def)

lemma lifestyleStep_ok:
  assumes "lifestyleOk E pid prid n0 pre rows ow"
  shows "lifestyleOk E pid prid n0 pre (rows @ [li]) (lifestyleStep E pid prid ow li)"
proof (cases "lifestyleSkipped li")
  case True
  with assms show ?thesis by (simp add: lifestyleStep_def lifestyleOk_def)
next
  case False
  let ?r = "buildLifestyleObs E (snd ow) pid prid (orElse (li_label li) ''Lifestyle'') (li_value li)"
  have e: "lifestyleStep E pid prid ow li = (fst ow @ [fst ?r], snd ?r)"
    using False by (simp add: lifestyleStep_def split_beta)
  from assms obtain ls where ls: "fst ow = pre @ ls"
    "map lifestyleSummary ls = map expectedLifestyle (filter (\<lambda>li. \<not> lifestyleSkipped li) rows)"
    "list_all (\<lambda>ob. isLifestyle ob \<and> \<not> isVital ob) ls"
    by (auto simp: lifestyleOk_def)
  have inv: "obsInv E pid prid n0 (fst ow @ [fst ?r], snd ?r)"
    using assms by (intro obsInv_push) (simp_all add: lifestyleOk_def buildLifestyleObs_props)
  have "orElse (orElse (li_label li) ''Lifestyle'') ''Lifestyle'' = orElse (li_label li) ''Lifestyle''"
    by (simp add: orElse_def)
  then have sm: "lifestyleSummary (fst ?r) = expectedLifestyle li"
    by (simp add: lifestyleSummary_def expectedLifestyle_def buildLifestyleObs_props)
  have kind: "isLifestyle (fst ?r) \<and> \<not> isVital (fst ?r)"
    by (simp add: isLifestyle_def isVital_def buildLifestyleObs_props)
  have "fst ow @ [fst ?r] = pre @ (ls @ [fst ?r])" using ls by simp
  moreover have "map lifestyleSummary (ls @ [fst ?r]) =
      map expectedLifestyle (filter (\<lambda>li. \<not> lifestyleSkipped li) (rows @ [li]))"
    using ls sm False by simp
  moreover have "list_all (\<lambda>ob. isLifestyle ob \<and> \<not> isVital ob) (ls @ [fst ?r])"
    using ls kind by simp
  ultimately show ?thesis
    unfolding e lifestyleOk_def using inv by (metis fst_conv)
qed

lemma lifestyleObservations_ok:
  assumes "obsInv E pid prid n0 (pre, w)"
  shows "lifestyleOk E pid prid n0 pre rows (lifestyleObservations E pid prid rows (pre, w))"
proof (induction rows rule: rev_induct)
  case Nil
  with assms show ?case by (simp add: lifestyleObservations_def lifestyleOk_def)
next
  case (snoc li rows)
  then show ?case
    using lifestyleStep_ok [of E pid prid n0 pre rows _ li]
    by (simp add: lifestyleObservations_def)
qed

lemma runObservations_ok:
  "observationsOk E pid prid (uuidCalls w) st (runObservations E w pid prid st)"
proof -
  let ?V = "vitalObservations E w pid prid (vitals st) (body st)"
  let ?P = "buildPhysicalActivityObs E (snd ?V) pid prid (orElse (physicalText st) ''Not provided'')"
  let ?G = "buildGeneralAssessmentObs E (snd ?P) pid prid
              (orElse (generalNotes st) ''Not provided'') (generalPain st)"
  let ?pre = "fst ?V @ [fst ?P] @ [fst ?G]"
  let ?L = "lifestyleObservations E pid prid (lifestyle st) (?pre, snd ?G)"
  have run: "runObservations E w pid prid st = ((fst ?L, fst ?P, fst ?G), snd ?L)"
    by (simp add: runObservations_def split_beta Let_def)
  have v: "vitalsOk E pid prid (uuidCalls w) (vitalInputs (vitals st) (body st)) ?V"
    by (rule vitalObservations_ok)
  then have i1: "obsInv E pid prid (uuidCalls w) (fst ?V, snd ?V)" by (simp add: vitalsOk_def)
  then have i2: "obsInv E pid prid (uuidCalls w) (fst ?V @ [fst ?P], snd ?P)"
    by (intro obsInv_push) (simp_all add: buildPhysicalActivityObs_props)
  then have "obsInv E pid prid (uuidCalls w) ((fst ?V @ [fst ?P]) @ [fst ?G], snd ?G)"
    using obsInv_push [of E pid prid "uuidCalls w" "(fst ?V @ [fst ?P], snd ?P)" "fst ?G" "snd ?G"]
    by (simp add: buildGeneralAssessmentObs_props)
  then have i3: "obsInv E pid prid (uuidCalls w) (?pre, snd ?G)" by simp
  from lifestyleObservations_ok [OF i3, of "lifestyle st"]
  obtain ls where l: "obsInv E pid prid (uuidCalls w) ?L" "fst ?L = ?pre @ ls"
    "map lifestyleSummary ls =
       map expectedLifestyle (filter (\<lambda>li. \<not> lifestyleSkipped li) (lifestyle st))"
    "list_all (\<lambda>ob. isLifestyle ob \<and> \<not> isVital ob) ls"
    by (auto simp: lifestyleOk_def)
  have k: "\<not> isVital (fst ?P)" "\<not> isLifestyle (fst ?P)" "\<not> isVital (fst ?G)" "\<not> isLifestyle (fst ?G)"
    using profiles_differ
    by (simp_all add: isVital_def isLifestyle_def buildPhysicalActivityObs_props
        buildGeneralAssessmentObs_props)
  have dec: "fst ?L = fst ?V @ [fst ?P, fst ?G] @ ls" using l(2) by simp
  have inv: "obsInv E pid prid (uuidCalls w) (fst ?L, snd ?L)" using l(1) by simp
  have parts: "\<exists>vit ls.
           fst ?L = vit @ [fst ?P, fst ?G] @ ls \<and>
           map vitalSummary vit =
             map expectedVital (filter (\<lambda>i. fst (snd i) \<noteq> []) (vitalInputs (vitals st) (body st))) \<and>
           list_all (\<lambda>ob. isVital ob \<and> \<not> isLifestyle ob) vit \<and>
           \<not> isVital (fst ?P) \<and> \<not> isLifestyle (fst ?P) \<and>
           \<not> isVital (fst ?G) \<and> \<not> isLifestyle (fst ?G) \<and>
           map lifestyleSummary ls =
             map expectedLifestyle (filter (\<lambda>li. \<not> lifestyleSkipped li) (lifestyle st)) \<and>
           list_all (\<lambda>ob. isLifestyle ob \<and> \<not> isVital ob) ls"
    using v k l(3,4) dec unfolding vitalsOk_def by blast
  show ?thesis
    unfolding run observationsOk_def prod.case using inv parts by (rule conjI)
qed

lemma buildPractitioner_props:
  "snd (buildPractitioner E w p) = w\<lparr>uuidCalls := Suc (uuidCalls w)\<rparr>"
  "pr_id (fst (buildPractitioner E w p)) = uuids E (uuidCalls w)"
  by (simp_all add: buildPractitioner_def uuidv4_def)

lemma buildBundle_shape:
  obtains c P R obs phys gen w6 where
    "P = fst (buildFhirPatient E w f)"
    "R = fst (buildPractitioner E (snd (buildFhirPatient E w f)) (practitioner st))"
    "pr_id R = uuids E (uuidCalls (snd (buildFhirPatient E w f)))"
    "observationsOk E (pt_id P) (pr_id R) (Suc (uuidCalls (snd (buildFhirPatient E w f)))) st
       ((obs, phys, gen), w6)"
    "bn_entry (fst (buildBundle E w f st)) =
       [bundleEntryOf (co_id c) (Composition c), bundleEntryOf (pt_id P) (Patient P),
        bundleEntryOf (pr_id R) (Practitioner R)] @
       map (\<lambda>ob. bundleEntryOf (ob_id ob) (Observation ob)) obs"
    "co_id c = uuids E (uuidCalls w6)"
    "co_subject c = \<lparr>ref = urn (pt_id P), ref_display = Some (displayName f)\<rparr>"
    "co_author c = [\<lparr>ref = urn (pr_id R), ref_display = Some (name (practitioner st))\<rparr>]"
    "co_attester c = [\<lparr>at_mode = ''official'', at_party = refTo (pr_id R)\<rparr>]"
    "co_section c = buildSections obs phys gen"
proof -
  let ?P = "buildFhirPatient E w f"
  let ?R = "buildPractitioner E (snd ?P) (practitioner st)"
  let ?O = "runObservations E (snd ?R) (pt_id (fst ?P)) (pr_id (fst ?R)) st"
  obtain obs phys gen w6 where O: "?O = ((obs, phys, gen), w6)"
    by (metis prod.exhaust)
  have h: "uuidCalls (snd ?R) = Suc (uuidCalls (snd ?P))"
    by (simp add: buildPractitioner_props)
  have ok: "observationsOk E (pt_id (fst ?P)) (pr_id (fst ?R)) (Suc (uuidCalls (snd ?P))) st
       ((obs, phys, gen), w6)"
    using runObservations_ok [of E "pt_id (fst ?P)" "pr_id (fst ?R)" "snd ?R" st]
    unfolding h O .
  have prid: "pr_id (fst ?R) = uuids E (uuidCalls (snd ?P))"
    by (simp add: buildPractitioner_props)
  show thesis
    by (rule that [OF refl refl prid ok, where c = "\<lparr>co_id = uuids E (uuidCalls w6),
             co_profile = [NDHM_WELLNESS_COMPOSITION],
             co_status = ''final'',
             co_type =
               \<lparr>cc_coding =
                  [\<lparr>cd_system = ''http://loinc.org'', cd_code = ''11502-2'',
                    cd_display = None\<rparr>],
                cc_text = ''Wellness Record''\<rparr>,
             co_subject = \<lparr>ref = urn (pt_id (fst ?P)), ref_display = Some (displayName f)\<rparr>,
             co_date = dates E (dateCalls w6),
             co_author = [\<lparr>ref = urn (pr_id (fst ?R)), ref_display = Some (name (practitioner st))\<rparr>],
             co_attester = [\<lparr>at_mode = ''official'', at_party = refTo (pr_id (fst ?R))\<rparr>],
             co_title = ''Wellness Record'',
             co_section = buildSections obs phys gen,
             co_text =
               generated (xhtmlDiv (''<h3>Wellness Record - '' @ displayName f @ ''</h3>''))\<rparr>"])
      (simp_all add: buildBundle_def split_beta Let_def O uuidv4_def nowISO_def)
qed

lemma buildBundle_cleared:
  "buildBundle E w f (st\<lparr>message := m, bundleJson := b\<rparr>) = buildBundle E w f st"
  by (simp add: buildBundle_def runObservations_def)

lemma generateBundle_success:
  assumes "preconditionsHold st" "form st = Some f"
  shows "generateBundle E w st =
     (st\<lparr>message := generatedMessage, bundleJson := Some (fst (buildBundle E w f st))\<rparr>,
      snd (buildBundle E w f st))"
  using assms
  by (auto simp: generateBundle_def preconditionsHold_def buildBundle_cleared split_beta Let_def)

lemma generateBundle_refused:
  assumes "\<not> preconditionsHold st"
  shows "generateBundle E w st =
     (st\<lparr>bundleJson := None,
         message :=
           (case form st of
              None \<Rightarrow> ''Please select a patient.''
            | Some f \<Rightarrow>
                if \<not> present (selectedAbhaAddress f) \<and> abhaRef f = []
                then ''Please select ABHA address.''
                else ''Practitioner name and license required.'')\<rparr>, w)"
  using assms
  by (auto simp: generateBundle_def preconditionsHold_def Let_def split: option.splits)

lemma sections_refs:
  "set (concat (map sectionRefs (buildSections obs phys gen))) \<subseteq>
     (\<lambda>ob. urn (ob_id ob)) ` (set obs \<union> {phys, gen})"
  by (auto simp: buildSections_def Let_def sectionRefs_def entrySection_def textSection_def
      refTo_def objectTruthy_def)

lemma distinct_unique_resolution:
  "distinct (map g es) \<Longrightarrow> e \<in> set es \<Longrightarrow> filter (\<lambda>x. g x = g e) es = [e]"
proof (induction es)
  case Nil then show ?case by simp
next
  case (Cons a es)
  show ?case
  proof (cases "a = e")
    case True
    have "g e \<notin> g ` set es" using Cons.prems True by simp
    then have "\<forall>x \<in> set es. g x \<noteq> g e" by (metis image_eqI)
    then have "filter (\<lambda>x. g x = g e) es = []"
      by (simp add: filter_empty_conv)
    with True show ?thesis by simp
  next
    case False
    with Cons show ?thesis by auto
  qed
qed

lemma obsInv_D:
  assumes "obsInv E pid prid n0 (obs, w)"
  shows "n0 \<le> uuidCalls w" "map ob_id obs = map (uuids E) [n0..<uuidCalls w]"
    "\<And>ob. ob \<in> set obs \<Longrightarrow> ob_subject ob = refTo pid \<and> ob_performer ob = [refTo prid]"
  using assms by (auto simp: obsInv_def list_all_iff)

lemma buildBundle_ids:
  assumes inj: "inj (uuids E)"
    and fresh: "isUuid (JStr (resourceId f)) \<longrightarrow> toLowerCase (resourceId f) \<notin> range (uuids E)"
  shows "distinct (map (\<lambda>e. idOf (resource e)) (bn_entry (fst (buildBundle E w f st))))"
    and "set (bundleRefs (fst (buildBundle E w f st))) \<subseteq>
           set (map fullUrl (bn_entry (fst (buildBundle E w f st))))"
    and "\<forall>e \<in> set (bn_entry (fst (buildBundle E w f st))). fullUrl e = urn (idOf (resource e))"
    and "urn (pt_id (fst (buildFhirPatient E w f))) \<in> set (bundleRefs (fst (buildBundle E w f st)))"
proof -
  let ?b = "fst (buildBundle E w f st)"
  let ?n1 = "uuidCalls (snd (buildFhirPatient E w f))"
  obtain c P R obs phys gen w6 where
    P: "P = fst (buildFhirPatient E w f)"
    and prid: "pr_id R = uuids E ?n1"
    and ok: "observationsOk E (pt_id P) (pr_id R) (Suc ?n1) st ((obs, phys, gen), w6)"
    and entries: "bn_entry ?b =
       [bundleEntryOf (co_id c) (Composition c), bundleEntryOf (pt_id P) (Patient P),
        bundleEntryOf (pr_id R) (Practitioner R)] @
       map (\<lambda>ob. bundleEntryOf (ob_id ob) (Observation ob)) obs"
    and c: "co_id c = uuids E (uuidCalls w6)"
      "co_subject c = \<lparr>ref = urn (pt_id P), ref_display = Some (displayName f)\<rparr>"
      "co_author c = [\<lparr>ref = urn (pr_id R), ref_display = Some (name (practitioner st))\<rparr>]"
      "co_attester c = [\<lparr>at_mode = ''official'', at_party = refTo (pr_id R)\<rparr>]"
      "co_section c = buildSections obs phys gen"
    by (rule buildBundle_shape [where E = E and w = w and f = f and st = st])
  from ok have inv: "obsInv E (pt_id P) (pr_id R) (Suc ?n1) (obs, w6)"
    and mem: "phys \<in> set obs" "gen \<in> set obs"
    by (auto simp: observationsOk_def)
  note d = obsInv_D [OF inv]
  have pid': "uuids E n \<noteq> pt_id P" if n: "?n1 \<le> n" for n
  proof (cases "isUuid (JStr (resourceId f))")
    case True
    with fresh have "toLowerCase (resourceId f) \<notin> range (uuids E)" by simp
    then have "uuids E n \<noteq> toLowerCase (resourceId f)" by (metis rangeI)
    with True show ?thesis by (simp add: P buildFhirPatient_id)
  next
    case False
    then have "pt_id P = uuids E (uuidCalls w)" "?n1 = Suc (uuidCalls w)"
      by (simp_all add: P buildFhirPatient_id)
    with n show ?thesis by (auto dest: injD [OF inj])
  qed
  have p6: "uuids E (uuidCalls w6) \<noteq> pt_id P" using pid' [of "uuidCalls w6"] d(1) by simp
  have p1: "uuids E ?n1 \<noteq> pt_id P" using pid' [of ?n1] by simp
  have pr: "pt_id P \<notin> uuids E ` set [Suc ?n1..<uuidCalls w6]"
  proof
    assume "pt_id P \<in> uuids E ` set [Suc ?n1..<uuidCalls w6]"
    then obtain n where "Suc ?n1 \<le> n" "pt_id P = uuids E n" by auto
    with pid' [of n] show False by simp
  qed
  have ids: "map (\<lambda>e. idOf (resource e)) (bn_entry ?b) =
      [uuids E (uuidCalls w6), pt_id P, uuids E ?n1] @ map (uuids E) [Suc ?n1..<uuidCalls w6]"
    by (simp add: entries bundleEntryOf_def c prid comp_def d(2) [symmetric])
  have dm: "distinct (map (uuids E) [Suc ?n1..<uuidCalls w6])"
    using inj by (simp add: distinct_map inj_on_def inj_def)
  show "distinct (map (\<lambda>e. idOf (resource e)) (bn_entry ?b))"
    unfolding ids using dm p6 p1 pr d(1) by (auto dest: injD [OF inj])
  show urls: "\<forall>e \<in> set (bn_entry ?b). fullUrl e = urn (idOf (resource e))"
    by (auto simp: entries bundleEntryOf_def)
  have fu: "set (map fullUrl (bn_entry ?b)) =
      {urn (co_id c), urn (pt_id P), urn (pr_id R)} \<union> (\<lambda>ob. urn (ob_id ob)) ` set obs"
    by (auto simp: entries bundleEntryOf_def)
  have cr: "set (resourceRefs (Composition c)) \<subseteq> set (map fullUrl (bn_entry ?b))"
    using sections_refs [of obs phys gen] mem unfolding fu
    by (auto simp: c refTo_def)
  have orf: "set (resourceRefs (Observation ob)) \<subseteq> set (map fullUrl (bn_entry ?b))"
    if "ob \<in> set obs" for ob
    using d(3) [OF that] unfolding fu by (auto simp: refTo_def)
  show "set (bundleRefs ?b) \<subseteq> set (map fullUrl (bn_entry ?b))"
    using cr orf by (auto simp: bundleRefs_def entries bundleEntryOf_def)
  show "urn (pt_id (fst (buildFhirPatient E w f))) \<in> set (bundleRefs ?b)"
    by (simp add: bundleRefs_def entries bundleEntryOf_def c P)
qed


lemma filter_all: "list_all P xs \<Longrightarrow> filter P xs = xs"
  by (induction xs) auto

lemma filter_none: "list_all (\<lambda>x. \<not> P x) xs \<Longrightarrow> filter P xs = []"
  by (induction xs) auto

lemma observationsOk_filters:
  assumes "observationsOk E pid prid n st ((obs, phys, gen), w6)"
  shows "map vitalSummary (filter isVital obs) =
           map expectedVital (filter (\<lambda>i. fst (snd i) \<noteq> []) (vitalInputs (vitals st) (body st)))"
    and "map lifestyleSummary (filter isLifestyle obs) =
           map expectedLifestyle (filter (\<lambda>li. \<not> lifestyleSkipped li) (lifestyle st))"
    and "concat (map sectionRefs (buildSections obs phys gen)) = map (\<lambda>ob. urn (ob_id ob)) obs"
    and "sectionRefs (hd (buildSections obs phys gen)) =
           map (\<lambda>ob. urn (ob_id ob)) (filter isVital obs)"
proof -
  from assms obtain vit ls where
    o: "obs = vit @ [phys, gen] @ ls"
    and v: "map vitalSummary vit =
        map expectedVital (filter (\<lambda>i. fst (snd i) \<noteq> []) (vitalInputs (vitals st) (body st)))"
      "list_all (\<lambda>ob. isVital ob \<and> \<not> isLifestyle ob) vit"
    and k: "\<not> isVital phys" "\<not> isLifestyle phys" "\<not> isVital gen" "\<not> isLifestyle gen"
    and l: "map lifestyleSummary ls =
        map expectedLifestyle (filter (\<lambda>li. \<not> lifestyleSkipped li) (lifestyle st))"
      "list_all (\<lambda>ob. isLifestyle ob \<and> \<not> isVital ob) ls"
    by (auto simp: observationsOk_def)
  have vv: "filter isVital vit = vit" "filter isLifestyle vit = []"
    using v(2) by (auto intro: filter_all filter_none simp: list_all_iff)
  have ll: "filter isLifestyle ls = ls" "filter isVital ls = []"
    using l(2) by (auto intro: filter_all filter_none simp: list_all_iff)
  have fv: "filter isVital obs = vit" using vv ll k by (simp add: o)
  have fl: "filter isLifestyle obs = ls" using vv ll k by (simp add: o)
  show "map vitalSummary (filter isVital obs) =
      map expectedVital (filter (\<lambda>i. fst (snd i) \<noteq> []) (vitalInputs (vitals st) (body st)))"
    using v(1) by (simp add: fv)
  show "map lifestyleSummary (filter isLifestyle obs) =
      map expectedLifestyle (filter (\<lambda>li. \<not> lifestyleSkipped li) (lifestyle st))"
    using l(1) by (simp add: fl)
  have fv': "filter (\<lambda>ob. ob_valueQuantity ob \<noteq> None) obs = vit"
    using fv by (simp add: isVital_def [abs_def])
  have fl': "filter (\<lambda>ob. OBS_LIFESTYLE_PROFILE \<in> set (ob_profile ob)) obs = ls"
    using fl by (simp add: isLifestyle_def [abs_def])
  show "concat (map sectionRefs (buildSections obs phys gen)) = map (\<lambda>ob. urn (ob_id ob)) obs"
    unfolding buildSections_def Let_def fv' fl'
    by (simp add: sectionRefs_def entrySection_def textSection_def objectTruthy_def refTo_def
        comp_def o)
  show "sectionRefs (hd (buildSections obs phys gen)) = map (\<lambda>ob. urn (ob_id ob)) (filter isVital obs)"
    unfolding buildSections_def Let_def fv' fl' fv
    by (simp add: sectionRefs_def entrySection_def textSection_def refTo_def comp_def)
qed

lemma buildSections_ok:
  "map sc_title (buildSections obs phys gen) =
     [''Vitals'', ''Physical Activity'', ''General Assessment'', ''Lifestyle'']"
  "list_all sectionOk (buildSections obs phys gen)"
  by (simp_all add: buildSections_def Let_def sectionOk_def entrySection_def textSection_def
      objectTruthy_def generated_def nothingRecorded_def xhtmlDiv_def)

text \<open>The parts of the bundle of a successful run.\<close>

lemma generateBundle_parts:
  assumes "preconditionsHold st" "form st = Some f"
  obtains b c p pr obs phys gen w6 where
    "bundleJson (fst (generateBundle E w st)) = Some b"
    "p = fst (buildFhirPatient E w f)"
    "pr = fst (buildPractitioner E (snd (buildFhirPatient E w f)) (practitioner st))"
    "pr_id pr = uuids E (uuidCalls (snd (buildFhirPatient E w f)))"
    "observationsOk E (pt_id p) (pr_id pr) (Suc (uuidCalls (snd (buildFhirPatient E w f)))) st
       ((obs, phys, gen), w6)"
    "bn_entry b =
       [bundleEntryOf (co_id c) (Composition c), bundleEntryOf (pt_id p) (Patient p),
        bundleEntryOf (pr_id pr) (Practitioner pr)] @
       map (\<lambda>ob. bundleEntryOf (ob_id ob) (Observation ob)) obs"
    "co_id c = uuids E (uuidCalls w6)"
    "co_section c = buildSections obs phys gen"
proof -
  have b: "bundleJson (fst (generateBundle E w st)) = Some (fst (buildBundle E w f st))"
    by (simp add: generateBundle_success [OF assms])
  show thesis
    by (rule buildBundle_shape [where E = E and w = w and f = f and st = st])
       (rule that [OF b], assumption+)
qed

lemma preconditionsHold_form: "preconditionsHold st \<Longrightarrow> \<exists>f. form st = Some f"
  by (auto simp: preconditionsHold_def split: option.splits)

lemma resolutions_unique:
  assumes d: "distinct (map (\<lambda>e. idOf (resource e)) (bn_entry b))"
    and u: "\<forall>e \<in> set (bn_entry b). fullUrl e = urn (idOf (resource e))"
    and r: "r \<in> set (map fullUrl (bn_entry b))"
  shows "length (resolutions b r) = 1"
proof -
  from r obtain e where e: "e \<in> set (bn_entry b)" "fullUrl e = r" by auto
  have m: "map fullUrl (bn_entry b) = map urn (map (\<lambda>e. idOf (resource e)) (bn_entry b))"
    using u by simp
  have "inj urn" by (simp add: inj_def urn_def)
  then have "distinct (map fullUrl (bn_entry b))"
    unfolding m using d by (simp add: distinct_map inj_on_def inj_def)
  then have one: "filter (\<lambda>x. fullUrl x = fullUrl e) (bn_entry b) = [e]"
    using e(1) by (rule distinct_unique_resolution)
  have "resolutions b r = filter (\<lambda>x. fullUrl x = fullUrl e) (bn_entry b)"
    unfolding resolutions_def using u e(2) by (intro filter_cong) auto
  with one show ?thesis by simp
qed

text \<open>
  C1. In a run whose preconditions hold, with \<open>uuidv4()\<close> never returning the same
  identifier twice and never returning the person's reused seed, the bundle is produced
  and every reference string in it (the composition's subject, author and attester
  party, every section entry, every observation's subject and performer) resolves to
  exactly one entry of the same bundle, the entry whose address is the \<open>urn:uuid:\<close> of
  its resource's identity; the composition's subject is such a reference; and no two
  resources of the bundle share an identity.
\<close>

theorem bundle_references_resolve:
  assumes "preconditionsHold st" and "form st = Some f" and "inj (uuids E)"
    and "isUuid (JStr (resourceId f)) \<longrightarrow> toLowerCase (resourceId f) \<notin> range (uuids E)"
  shows "\<exists>b. bundleJson (fst (generateBundle E w st)) = Some b \<and>
     (\<forall>r \<in> set (bundleRefs b). length (resolutions b r) = 1) \<and>
     urn (pt_id (fst (buildFhirPatient E w f))) \<in> set (bundleRefs b) \<and>
     distinct (map (\<lambda>e. idOf (resource e)) (bn_entry b))"
proof -
  let ?b = "fst (buildBundle E w f st)"
  note ids = buildBundle_ids [OF assms(3,4), of w st]
  have "bundleJson (fst (generateBundle E w st)) = Some ?b"
    by (simp add: generateBundle_success [OF assms(1,2)])
  moreover have "\<forall>r \<in> set (bundleRefs ?b). length (resolutions ?b r) = 1"
    using resolutions_unique [OF ids(1) ids(3)] ids(2) by blast
  ultimately show ?thesis using ids(1) ids(4) by blast
qed

lemma countingUuids_inj: "inj (uuids countingUuids)"
proof (rule injI)
  fix n m assume "uuids countingUuids n = uuids countingUuids m"
  then have "replicate n CHR ''x'' = replicate m CHR ''x''" by (simp add: countingUuids_def)
  then have "length (replicate n CHR ''x'') = length (replicate m CHR ''x'')" by simp
  then show "n = m" by simp
qed

lemma exampleState_ok:
  "preconditionsHold exampleState" "form exampleState = Some exampleForm"
  by (simp_all add: preconditionsHold_def exampleState_def exampleForm_def
      GLOBAL_PRACTITIONER_def present_def)

theorem bundle_references_resolve_witness:
  "preconditionsHold exampleState \<and> form exampleState = Some exampleForm \<and>
   inj (uuids countingUuids) \<and> isUuid (JStr (resourceId exampleForm)) \<and>
   toLowerCase (resourceId exampleForm) \<notin> range (uuids countingUuids) \<and>
   (\<exists>b. bundleJson (fst (generateBundle countingUuids startWorld exampleState)) = Some b \<and>
      length (resolutions b (urn ''123e4567-e89b-42d3-a456-426614174000'')) = 1 \<and>
      distinct (map (\<lambda>e. idOf (resource e)) (bn_entry b)))"
proof -
  have l: "toLowerCase (resourceId exampleForm) = ''123e4567-e89b-42d3-a456-426614174000''"
    by code_simp
  have u: "isUuid (JStr (resourceId exampleForm))" by code_simp
  have fresh: "toLowerCase (resourceId exampleForm) \<notin> range (uuids countingUuids)"
    unfolding l by (auto simp: countingUuids_def)
  have p: "pt_id (fst (buildFhirPatient countingUuids startWorld exampleForm)) =
      ''123e4567-e89b-42d3-a456-426614174000''"
    using u l by (simp add: buildFhirPatient_id)
  from bundle_references_resolve [OF exampleState_ok countingUuids_inj, of startWorld] fresh
  obtain b where b: "bundleJson (fst (generateBundle countingUuids startWorld exampleState)) = Some b"
    "\<forall>r \<in> set (bundleRefs b). length (resolutions b r) = 1"
    "urn (pt_id (fst (buildFhirPatient countingUuids startWorld exampleForm))) \<in> set (bundleRefs b)"
    "distinct (map (\<lambda>e. idOf (resource e)) (bn_entry b))"
    by blast
  from b(2,3) have "length (resolutions b (urn ''123e4567-e89b-42d3-a456-426614174000'')) = 1"
    unfolding p by blast
  with b(1,4) exampleState_ok countingUuids_inj u fresh show ?thesis by blast
qed

text \<open>
  C5. When a precondition fails, generation is refused: the preview holds no bundle, so
  the flow is in the state Idle whatever it was before, nothing else of the state
  changes, no identity is coined and the clock is not read, and the message names what
  is missing, the first failed check deciding: no person selected, then no external
  health id or address, then the attester's name or license. With every precondition
  met the flow ends in the state Generated. In particular, for a selected person with a
  health id or address, an attester with an empty license is refused with the message
  "Practitioner name and license required."
\<close>

theorem generateBundle_refuses:
  "(\<not> preconditionsHold st \<longrightarrow>
      bundleJson (fst (generateBundle E w st)) = None \<and>
      phaseOf (fst (generateBundle E w st)) = Idle \<and>
      snd (generateBundle E w st) = w \<and>
      fst (generateBundle E w st) =
        st\<lparr>bundleJson := None, message := message (fst (generateBundle E w st))\<rparr> \<and>
      message (fst (generateBundle E w st)) =
        (case form st of
           None \<Rightarrow> ''Please select a patient.''
         | Some f \<Rightarrow>
             if abhaRef f = [] \<and> \<not> present (selectedAbhaAddress f)
             then ''Please select ABHA address.''
             else ''Practitioner name and license required.'')) \<and>
   (preconditionsHold st \<longrightarrow> phaseOf (fst (generateBundle E w st)) = Generated) \<and>
   (form st = Some f \<and> (abhaRef f \<noteq> [] \<or> present (selectedAbhaAddress f)) \<and>
    license (practitioner st) = [] \<longrightarrow>
      bundleJson (fst (generateBundle E w st)) = None \<and>
      message (fst (generateBundle E w st)) = ''Practitioner name and license required.'')"
proof (intro conjI impI)
  assume n: "\<not> preconditionsHold st"
  note r = generateBundle_refused [OF n, of E w]
  show "bundleJson (fst (generateBundle E w st)) = None" by (simp add: r)
  show "phaseOf (fst (generateBundle E w st)) = Idle" by (simp add: r phaseOf_def)
  show "snd (generateBundle E w st) = w" by (simp add: r)
  show "fst (generateBundle E w st) =
        st\<lparr>bundleJson := None, message := message (fst (generateBundle E w st))\<rparr>"
    by (simp add: r)
  show "message (fst (generateBundle E w st)) =
        (case form st of
           None \<Rightarrow> ''Please select a patient.''
         | Some f \<Rightarrow>
             if abhaRef f = [] \<and> \<not> present (selectedAbhaAddress f)
             then ''Please select ABHA address.''
             else ''Practitioner name and license required.'')"
    by (simp add: r conj_commute split: option.splits)
next
  assume p: "preconditionsHold st"
  then obtain g where "form st = Some g" using preconditionsHold_form by blast
  with p show "phaseOf (fst (generateBundle E w st)) = Generated"
    by (simp add: generateBundle_success phaseOf_def)
next
  assume a: "form st = Some f \<and> (abhaRef f \<noteq> [] \<or> present (selectedAbhaAddress f)) \<and>
    license (practitioner st) = []"
  then have n: "\<not> preconditionsHold st" by (simp add: preconditionsHold_def)
  note r = generateBundle_refused [OF n, of E w]
  show "bundleJson (fst (generateBundle E w st)) = None" by (simp add: r)
  show "message (fst (generateBundle E w st)) = ''Practitioner name and license required.''"
    using a by (auto simp: r)
qed

theorem generateBundle_refuses_witness:
  "\<not> preconditionsHold unlicensedState \<and>
   form unlicensedState = Some exampleForm \<and> abhaRef exampleForm \<noteq> [] \<and>
   license (practitioner unlicensedState) = [] \<and>
   bundleJson (fst (generateBundle constantUuids startWorld unlicensedState)) = None \<and>
   phaseOf (fst (generateBundle constantUuids startWorld unlicensedState)) = Idle \<and>
   message (fst (generateBundle constantUuids startWorld unlicensedState)) =
     ''Practitioner name and license required.'' \<and>
   preconditionsHold exampleState \<and>
   phaseOf (fst (generateBundle constantUuids startWorld exampleState)) = Generated"
proof -
  have h: "\<not> preconditionsHold unlicensedState" "form unlicensedState = Some exampleForm"
    "abhaRef exampleForm \<noteq> []" "license (practitioner unlicensedState) = []"
    by (simp_all add: preconditionsHold_def unlicensedState_def exampleState_def exampleForm_def
        GLOBAL_PRACTITIONER_def present_def)
  note t = generateBundle_refuses [of unlicensedState constantUuids startWorld exampleForm]
  note t2 = generateBundle_refuses [of exampleState constantUuids startWorld exampleForm]
  from t h have "bundleJson (fst (generateBundle constantUuids startWorld unlicensedState)) = None"
    "phaseOf (fst (generateBundle constantUuids startWorld unlicensedState)) = Idle"
    "message (fst (generateBundle constantUuids startWorld unlicensedState)) =
       ''Practitioner name and license required.''"
    by blast+
  moreover from t2 exampleState_ok(1)
  have "phaseOf (fst (generateBundle constantUuids startWorld exampleState)) = Generated" by blast
  ultimately show ?thesis using h exampleState_ok(1) by blast
qed


text \<open>
  C2. In every generated bundle the composition, the first entry, carries the four
  sections Vitals, Physical Activity, General Assessment and Lifestyle in this order,
  and each section either has a non-empty entry list, together with a narrative unless
  it is the Vitals section, or has no entry list and the narrative that nothing was
  recorded; no section has an empty entry list. The entries of the four sections, read
  in order, refer to the observations of the bundle in generation order, each once.
\<close>

theorem sections_entries_or_fallback:
  assumes "preconditionsHold st"
  shows "\<exists>b c p pr obs.
     bundleJson (fst (generateBundle E w st)) = Some b \<and>
     map resource (bn_entry b) =
       Composition c # Patient p # Practitioner pr # map Observation obs \<and>
     map sc_title (co_section c) =
       [''Vitals'', ''Physical Activity'', ''General Assessment'', ''Lifestyle''] \<and>
     list_all sectionOk (co_section c) \<and>
     list_all (\<lambda>s. sc_entry s \<noteq> Some []) (co_section c) \<and>
     concat (map sectionRefs (co_section c)) = map (\<lambda>ob. urn (ob_id ob)) obs"
proof -
  from assms obtain f where f: "form st = Some f" using preconditionsHold_form by blast
  obtain b c p pr obs phys gen w6 where
    b: "bundleJson (fst (generateBundle E w st)) = Some b"
    and ok: "observationsOk E (pt_id p) (pr_id pr)
       (Suc (uuidCalls (snd (buildFhirPatient E w f)))) st ((obs, phys, gen), w6)"
    and en: "bn_entry b =
       [bundleEntryOf (co_id c) (Composition c), bundleEntryOf (pt_id p) (Patient p),
        bundleEntryOf (pr_id pr) (Practitioner pr)] @
       map (\<lambda>ob. bundleEntryOf (ob_id ob) (Observation ob)) obs"
    and sec: "co_section c = buildSections obs phys gen"
    by (rule generateBundle_parts [OF assms f, where E = E and w = w])
  have r: "map resource (bn_entry b) =
      Composition c # Patient p # Practitioner pr # map Observation obs"
    by (simp add: en bundleEntryOf_def comp_def)
  have all: "list_all sectionOk (co_section c)" by (simp add: sec buildSections_ok)
  then have ne: "list_all (\<lambda>s. sc_entry s \<noteq> Some []) (co_section c)"
    by (auto simp: list_all_iff sectionOk_def split: option.splits)
  have refs: "concat (map sectionRefs (co_section c)) = map (\<lambda>ob. urn (ob_id ob)) obs"
    unfolding sec by (rule observationsOk_filters(3) [OF ok])
  from b r all ne refs show ?thesis by (auto simp: sec buildSections_ok)
qed

theorem sections_entries_or_fallback_witness:
  "preconditionsHold exampleState \<and>
   (\<exists>b c p pr obs.
     bundleJson (fst (generateBundle countingUuids startWorld exampleState)) = Some b \<and>
     map resource (bn_entry b) =
       Composition c # Patient p # Practitioner pr # map Observation obs \<and>
     map sc_title (co_section c) =
       [''Vitals'', ''Physical Activity'', ''General Assessment'', ''Lifestyle''] \<and>
     list_all sectionOk (co_section c) \<and>
     list_all (\<lambda>s. sc_entry s \<noteq> Some []) (co_section c) \<and>
     concat (map sectionRefs (co_section c)) = map (\<lambda>ob. urn (ob_id ob)) obs)"
  by (intro conjI exampleState_ok(1)
      sections_entries_or_fallback [OF exampleState_ok(1), of countingUuids startWorld])

text \<open>
  C9. In every generated bundle the entries are, in order, the composition, the person
  resource, the attester resource and then the observations; each entry's address is the
  \<open>urn:uuid:\<close> of its resource's identity; and the observations stand in generation
  order, their identities being the identifiers coined one after the other from the
  attester's onward, the composition's identity being the next one coined after them.
\<close>

theorem bundle_entry_order:
  assumes "preconditionsHold st" and "form st = Some f"
  shows "\<exists>b c obs.
     bundleJson (fst (generateBundle E w st)) = Some b \<and>
     map resource (bn_entry b) =
       Composition c # Patient (fst (buildFhirPatient E w f)) #
       Practitioner (fst (buildPractitioner E (snd (buildFhirPatient E w f)) (practitioner st))) #
       map Observation obs \<and>
     map fullUrl (bn_entry b) = map (\<lambda>e. urn (idOf (resource e))) (bn_entry b) \<and>
     map ob_id obs =
       map (uuids E)
         [Suc (uuidCalls (snd (buildFhirPatient E w f)))..<
          Suc (uuidCalls (snd (buildFhirPatient E w f))) + length obs] \<and>
     co_id c = uuids E (Suc (uuidCalls (snd (buildFhirPatient E w f))) + length obs)"
proof -
  let ?n = "Suc (uuidCalls (snd (buildFhirPatient E w f)))"
  obtain b c p pr obs phys gen w6 where
    b: "bundleJson (fst (generateBundle E w st)) = Some b"
    and p: "p = fst (buildFhirPatient E w f)"
      "pr = fst (buildPractitioner E (snd (buildFhirPatient E w f)) (practitioner st))"
    and ok: "observationsOk E (pt_id p) (pr_id pr) ?n st ((obs, phys, gen), w6)"
    and en: "bn_entry b =
       [bundleEntryOf (co_id c) (Composition c), bundleEntryOf (pt_id p) (Patient p),
        bundleEntryOf (pr_id pr) (Practitioner pr)] @
       map (\<lambda>ob. bundleEntryOf (ob_id ob) (Observation ob)) obs"
    and c: "co_id c = uuids E (uuidCalls w6)"
    by (rule generateBundle_parts [OF assms, where E = E and w = w])
  from ok have inv: "obsInv E (pt_id p) (pr_id pr) ?n (obs, w6)"
    by (simp add: observationsOk_def)
  note d = obsInv_D(1,2) [OF inv]
  from d(2) have "length obs = uuidCalls w6 - ?n"
    by (metis length_map length_upt)
  with d(1) have n6: "uuidCalls w6 = ?n + length obs" by simp
  have r: "map resource (bn_entry b) =
      Composition c # Patient p # Practitioner pr # map Observation obs"
    by (simp add: en bundleEntryOf_def comp_def)
  have u: "map fullUrl (bn_entry b) = map (\<lambda>e. urn (idOf (resource e))) (bn_entry b)"
    by (simp add: en bundleEntryOf_def comp_def)
  show ?thesis
  proof (intro exI conjI)
    show "bundleJson (fst (generateBundle E w st)) = Some b" by (rule b)
    show "map resource (bn_entry b) =
       Composition c # Patient (fst (buildFhirPatient E w f)) #
       Practitioner (fst (buildPractitioner E (snd (buildFhirPatient E w f)) (practitioner st))) #
       map Observation obs" using r unfolding p .
    show "map fullUrl (bn_entry b) = map (\<lambda>e. urn (idOf (resource e))) (bn_entry b)" by (rule u)
    show "map ob_id obs = map (uuids E) [?n..<?n + length obs]" using d(2) unfolding n6 .
    show "co_id c = uuids E (?n + length obs)" using c unfolding n6 .
  qed
qed

theorem bundle_entry_order_witness:
  "preconditionsHold exampleState \<and> form exampleState = Some exampleForm \<and>
   (\<exists>b c obs.
     bundleJson (fst (generateBundle countingUuids startWorld exampleState)) = Some b \<and>
     map resource (bn_entry b) =
       Composition c # Patient (fst (buildFhirPatient countingUuids startWorld exampleForm)) #
       Practitioner (fst (buildPractitioner countingUuids
          (snd (buildFhirPatient countingUuids startWorld exampleForm))
          (practitioner exampleState))) #
       map Observation obs \<and>
     map fullUrl (bn_entry b) = map (\<lambda>e. urn (idOf (resource e))) (bn_entry b) \<and>
     map ob_id obs =
       map (uuids countingUuids)
         [Suc (uuidCalls (snd (buildFhirPatient countingUuids startWorld exampleForm)))..<
          Suc (uuidCalls (snd (buildFhirPatient countingUuids startWorld exampleForm))) +
          length obs] \<and>
     co_id c =
       uuids countingUuids
         (Suc (uuidCalls (snd (buildFhirPatient countingUuids startWorld exampleForm))) +
          length obs))"
  by (intro conjI exampleState_ok
      bundle_entry_order [OF exampleState_ok, of countingUuids startWorld])

text \<open>
  C4. \<open>buildVitalObservation\<close> returns no resource, and coins no identity, when the
  quantity is the empty string, \<open>undefined\<close> or \<open>null\<close>, whatever the label, the unit and
  the code; for every other quantity it returns one resource whose quantity value is
  \<open>Number(quantity)\<close> in the given unit. In a generated bundle the observations with a
  quantity are, in order, one for each of the eight measurements whose entered value is
  not empty, with that measurement's label, value and unit, and the entries of the
  Vitals section refer to exactly these observations: a measurement with an empty value
  has no resource and no entry.
\<close>

theorem vital_dropped_or_quantity:
  "(quantity = JStr [] \<or> quantity = JUndefined \<or> quantity = JNull \<longrightarrow>
      buildVitalObservation E w pid prid lbl quantity unit code = (None, w)) \<and>
   (quantity \<noteq> JStr [] \<and> quantity \<noteq> JUndefined \<and> quantity \<noteq> JNull \<longrightarrow>
      (\<exists>ob. buildVitalObservation E w pid prid lbl quantity unit code =
              (Some ob, w\<lparr>uuidCalls := Suc (uuidCalls w), dateCalls := Suc (dateCalls w)\<rparr>) \<and>
            ob_valueQuantity ob =
              Some \<lparr>q_value = Number quantity, q_unit = unit,
                    q_system = ''http://unitsofmeasure.org'', q_code = unit\<rparr>)) \<and>
   (preconditionsHold st \<longrightarrow>
      (\<exists>b c p pr obs.
         bundleJson (fst (generateBundle E w st)) = Some b \<and>
         map resource (bn_entry b) =
           Composition c # Patient p # Practitioner pr # map Observation obs \<and>
         map vitalSummary (filter isVital obs) =
           map expectedVital
             (filter (\<lambda>i. fst (snd i) \<noteq> []) (vitalInputs (vitals st) (body st))) \<and>
         sectionRefs (hd (co_section c)) = map (\<lambda>ob. urn (ob_id ob)) (filter isVital obs)))"
proof (intro conjI impI)
  assume "quantity = JStr [] \<or> quantity = JUndefined \<or> quantity = JNull"
  then show "buildVitalObservation E w pid prid lbl quantity unit code = (None, w)"
    by (rule buildVitalObservation_None)
next
  assume "quantity \<noteq> JStr [] \<and> quantity \<noteq> JUndefined \<and> quantity \<noteq> JNull"
  then show "\<exists>ob. buildVitalObservation E w pid prid lbl quantity unit code =
              (Some ob, w\<lparr>uuidCalls := Suc (uuidCalls w), dateCalls := Suc (dateCalls w)\<rparr>) \<and>
            ob_valueQuantity ob =
              Some \<lparr>q_value = Number quantity, q_unit = unit,
                    q_system = ''http://unitsofmeasure.org'', q_code = unit\<rparr>"
    using buildVitalObservation_Some [of quantity E w pid prid lbl unit code] by blast
next
  assume pre: "preconditionsHold st"
  then obtain f where f: "form st = Some f" using preconditionsHold_form by blast
  obtain b c p pr obs phys gen w6 where
    b: "bundleJson (fst (generateBundle E w st)) = Some b"
    and ok: "observationsOk E (pt_id p) (pr_id pr)
       (Suc (uuidCalls (snd (buildFhirPatient E w f)))) st ((obs, phys, gen), w6)"
    and en: "bn_entry b =
       [bundleEntryOf (co_id c) (Composition c), bundleEntryOf (pt_id p) (Patient p),
        bundleEntryOf (pr_id pr) (Practitioner pr)] @
       map (\<lambda>ob. bundleEntryOf (ob_id ob) (Observation ob)) obs"
    and sec: "co_section c = buildSections obs phys gen"
    by (rule generateBundle_parts [OF pre f, where E = E and w = w])
  show "\<exists>b c p pr obs.
         bundleJson (fst (generateBundle E w st)) = Some b \<and>
         map resource (bn_entry b) =
           Composition c # Patient p # Practitioner pr # map Observation obs \<and>
         map vitalSummary (filter isVital obs) =
           map expectedVital
             (filter (\<lambda>i. fst (snd i) \<noteq> []) (vitalInputs (vitals st) (body st))) \<and>
         sectionRefs (hd (co_section c)) = map (\<lambda>ob. urn (ob_id ob)) (filter isVital obs)"
  proof (intro exI conjI)
    show "bundleJson (fst (generateBundle E w st)) = Some b" by (rule b)
    show "map resource (bn_entry b) =
        Composition c # Patient p # Practitioner pr # map Observation obs"
      by (simp add: en bundleEntryOf_def comp_def)
    show "map vitalSummary (filter isVital obs) =
        map expectedVital
          (filter (\<lambda>i. fst (snd i) \<noteq> []) (vitalInputs (vitals st) (body st)))"
      by (rule observationsOk_filters(1) [OF ok])
    show "sectionRefs (hd (co_section c)) = map (\<lambda>ob. urn (ob_id ob)) (filter isVital obs)"
      unfolding sec by (rule observationsOk_filters(4) [OF ok])
  qed
qed

theorem vital_dropped_or_quantity_witness:
  "buildVitalObservation countingUuids startWorld ''p'' ''q'' ''Heart rate'' (JStr [])
     ''beats/min'' ''8867-4'' = (None, startWorld) \<and>
   JStr ''72'' \<noteq> JStr [] \<and>
   (\<exists>ob. buildVitalObservation countingUuids startWorld ''p'' ''q'' ''Heart rate'' (JStr ''72'')
            ''beats/min'' ''8867-4'' =
          (Some ob, startWorld\<lparr>uuidCalls := Suc (uuidCalls startWorld),
                               dateCalls := Suc (dateCalls startWorld)\<rparr>) \<and>
        ob_valueQuantity ob =
          Some \<lparr>q_value = Number (JStr ''72''), q_unit = ''beats/min'',
                q_system = ''http://unitsofmeasure.org'', q_code = ''beats/min''\<rparr>) \<and>
   preconditionsHold exampleState \<and>
   (\<exists>b c p pr obs.
      bundleJson (fst (generateBundle countingUuids startWorld exampleState)) = Some b \<and>
      map resource (bn_entry b) =
        Composition c # Patient p # Practitioner pr # map Observation obs \<and>
      map vitalSummary (filter isVital obs) =
        [(''Heart rate'',
          Some \<lparr>q_value = Number (JStr ''72''), q_unit = ''beats/min'',
                q_system = ''http://unitsofmeasure.org'', q_code = ''beats/min''\<rparr>),
         (''SpO2'',
          Some \<lparr>q_value = Number (JStr ''98''), q_unit = ''%'',
                q_system = ''http://unitsofmeasure.org'', q_code = ''%''\<rparr>)] \<and>
      sectionRefs (hd (co_section c)) = map (\<lambda>ob. urn (ob_id ob)) (filter isVital obs))"
proof -
  note t1 = vital_dropped_or_quantity [where quantity = "JStr []" and E = countingUuids
      and w = startWorld and pid = "''p''" and prid = "''q''" and lbl = "''Heart rate''"
      and unit = "''beats/min''" and code = "''8867-4''" and st = exampleState]
  note t2 = vital_dropped_or_quantity [where quantity = "JStr ''72''" and E = countingUuids
      and w = startWorld and pid = "''p''" and prid = "''q''" and lbl = "''Heart rate''"
      and unit = "''beats/min''" and code = "''8867-4''" and st = exampleState]
  have ne: "JStr ''72'' \<noteq> JStr []" "JStr ''72'' \<noteq> JUndefined" "JStr ''72'' \<noteq> JNull"
    by simp_all
  have v: "map expectedVital
      (filter (\<lambda>i. fst (snd i) \<noteq> []) (vitalInputs (vitals exampleState) (body exampleState))) =
      [(''Heart rate'',
        Some \<lparr>q_value = Number (JStr ''72''), q_unit = ''beats/min'',
              q_system = ''http://unitsofmeasure.org'', q_code = ''beats/min''\<rparr>),
       (''SpO2'',
        Some \<lparr>q_value = Number (JStr ''98''), q_unit = ''%'',
              q_system = ''http://unitsofmeasure.org'', q_code = ''%''\<rparr>)]"
    by (simp add: vitalInputs_def exampleState_def expectedVital_def)
  have a: "buildVitalObservation countingUuids startWorld ''p'' ''q'' ''Heart rate'' (JStr [])
     ''beats/min'' ''8867-4'' = (None, startWorld)"
    using t1 by (rule conjE) simp
  have b: "\<exists>ob. buildVitalObservation countingUuids startWorld ''p'' ''q'' ''Heart rate''
            (JStr ''72'') ''beats/min'' ''8867-4'' =
          (Some ob, startWorld\<lparr>uuidCalls := Suc (uuidCalls startWorld),
                               dateCalls := Suc (dateCalls startWorld)\<rparr>) \<and>
        ob_valueQuantity ob =
          Some \<lparr>q_value = Number (JStr ''72''), q_unit = ''beats/min'',
                q_system = ''http://unitsofmeasure.org'', q_code = ''beats/min''\<rparr>"
    using t2 ne by (elim conjE) (erule mp, intro conjI, assumption+)
  have c: "\<exists>b c p pr obs.
      bundleJson (fst (generateBundle countingUuids startWorld exampleState)) = Some b \<and>
      map resource (bn_entry b) =
        Composition c # Patient p # Practitioner pr # map Observation obs \<and>
      map vitalSummary (filter isVital obs) =
        map expectedVital
          (filter (\<lambda>i. fst (snd i) \<noteq> []) (vitalInputs (vitals exampleState) (body exampleState))) \<and>
      sectionRefs (hd (co_section c)) = map (\<lambda>ob. urn (ob_id ob)) (filter isVital obs)"
    using t2 exampleState_ok(1) by (elim conjE) (erule mp)
  show ?thesis
    by (intro conjI a ne(1) b exampleState_ok(1)) (rule c [unfolded v])
qed

text \<open>
  C10. A lifestyle row is skipped exactly when its label is empty and its value is the
  empty string, \<open>null\<close> or \<open>undefined\<close>. In a generated bundle the observations that
  declare the lifestyle profile are, in order, one for each row that is not skipped,
  with the row's label, or "Lifestyle" for an empty label, and the row's value rendered
  as "Yes" or "No" for a boolean, as "Not provided" for an empty string, \<open>null\<close> or
  \<open>undefined\<close>, and as the text itself otherwise. A row with an empty label and the
  value \<open>false\<close>, and a row with a label and an empty value, are not skipped.
\<close>

theorem lifestyle_rows_rendered:
  "(lifestyleSkipped li \<longleftrightarrow>
      li_label li = [] \<and>
      (li_value li = JStr [] \<or> li_value li = JNull \<or> li_value li = JUndefined)) \<and>
   (preconditionsHold st \<longrightarrow>
      (\<exists>b c p pr obs.
         bundleJson (fst (generateBundle E w st)) = Some b \<and>
         map resource (bn_entry b) =
           Composition c # Patient p # Practitioner pr # map Observation obs \<and>
         map lifestyleSummary (filter isLifestyle obs) =
           map expectedLifestyle (filter (\<lambda>li. \<not> lifestyleSkipped li) (lifestyle st)))) \<and>
   expectedLifestyle li =
     (if li_label li = [] then ''Lifestyle'' else li_label li,
      Some (lifestyleText (li_value li))) \<and>
   lifestyleText (JBool True) = ''Yes'' \<and> lifestyleText (JBool False) = ''No'' \<and>
   lifestyleText (JStr []) = ''Not provided'' \<and> lifestyleText JNull = ''Not provided'' \<and>
   lifestyleText JUndefined = ''Not provided'' \<and>
   (s \<noteq> [] \<longrightarrow> lifestyleText (JStr s) = s) \<and>
   \<not> lifestyleSkipped \<lparr>li_label = [], li_value = JBool False\<rparr> \<and>
   (lbl \<noteq> [] \<longrightarrow> \<not> lifestyleSkipped \<lparr>li_label = lbl, li_value = JStr []\<rparr>)"
proof -
  have run: "preconditionsHold st \<longrightarrow> (\<exists>b c p pr obs.
         bundleJson (fst (generateBundle E w st)) = Some b \<and>
         map resource (bn_entry b) =
           Composition c # Patient p # Practitioner pr # map Observation obs \<and>
         map lifestyleSummary (filter isLifestyle obs) =
           map expectedLifestyle (filter (\<lambda>li. \<not> lifestyleSkipped li) (lifestyle st)))"
  proof (rule impI)
    assume pre: "preconditionsHold st"
    from pre obtain f where f: "form st = Some f" using preconditionsHold_form by blast
    obtain b c p pr obs phys gen w6 where
      b: "bundleJson (fst (generateBundle E w st)) = Some b"
      and ok: "observationsOk E (pt_id p) (pr_id pr)
         (Suc (uuidCalls (snd (buildFhirPatient E w f)))) st ((obs, phys, gen), w6)"
      and en: "bn_entry b =
         [bundleEntryOf (co_id c) (Composition c), bundleEntryOf (pt_id p) (Patient p),
          bundleEntryOf (pr_id pr) (Practitioner pr)] @
         map (\<lambda>ob. bundleEntryOf (ob_id ob) (Observation ob)) obs"
      by (rule generateBundle_parts [OF pre f, where E = E and w = w])
    show "\<exists>b c p pr obs.
         bundleJson (fst (generateBundle E w st)) = Some b \<and>
         map resource (bn_entry b) =
           Composition c # Patient p # Practitioner pr # map Observation obs \<and>
         map lifestyleSummary (filter isLifestyle obs) =
           map expectedLifestyle (filter (\<lambda>li. \<not> lifestyleSkipped li) (lifestyle st))"
    proof (intro exI conjI)
      show "bundleJson (fst (generateBundle E w st)) = Some b" by (rule b)
      show "map resource (bn_entry b) =
          Composition c # Patient p # Practitioner pr # map Observation obs"
        by (simp add: en bundleEntryOf_def comp_def)
      show "map lifestyleSummary (filter isLifestyle obs) =
          map expectedLifestyle (filter (\<lambda>li. \<not> lifestyleSkipped li) (lifestyle st))"
        by (rule observationsOk_filters(2) [OF ok])
    qed
  qed
  have rest: "(lifestyleSkipped li \<longleftrightarrow>
      li_label li = [] \<and>
      (li_value li = JStr [] \<or> li_value li = JNull \<or> li_value li = JUndefined))"
    "expectedLifestyle li =
     (if li_label li = [] then ''Lifestyle'' else li_label li,
      Some (lifestyleText (li_value li)))"
    "lifestyleText (JBool True) = ''Yes''" "lifestyleText (JBool False) = ''No''"
    "lifestyleText (JStr []) = ''Not provided''" "lifestyleText JNull = ''Not provided''"
    "lifestyleText JUndefined = ''Not provided''"
    "s \<noteq> [] \<longrightarrow> lifestyleText (JStr s) = s"
    "\<not> lifestyleSkipped \<lparr>li_label = [], li_value = JBool False\<rparr>"
    "lbl \<noteq> [] \<longrightarrow> \<not> lifestyleSkipped \<lparr>li_label = lbl, li_value = JStr []\<rparr>"
    by (simp_all add: lifestyleSkipped_def expectedLifestyle_def orElse_def lifestyleText_def)
  show ?thesis by (intro conjI run rest)
qed

theorem lifestyle_rows_rendered_witness:
  "preconditionsHold exampleState \<and>
   (\<exists>b c p pr obs.
      bundleJson (fst (generateBundle countingUuids startWorld exampleState)) = Some b \<and>
      map resource (bn_entry b) =
        Composition c # Patient p # Practitioner pr # map Observation obs \<and>
      map lifestyleSummary (filter isLifestyle obs) =
        [(''Smoking'', Some ''No''), (''Lifestyle'', Some ''No''),
         (''Diet'', Some ''Not provided'')]) \<and>
   ''Diet'' \<noteq> [] \<and> \<not> lifestyleSkipped \<lparr>li_label = ''Diet'', li_value = JStr []\<rparr> \<and>
   lifestyleText (JStr ''daily'') = ''daily''"
proof -
  note t = lifestyle_rows_rendered [where st = exampleState and E = countingUuids
      and w = startWorld and lbl = "''Diet''" and s = "''daily''"]
  have v: "map expectedLifestyle (filter (\<lambda>li. \<not> lifestyleSkipped li) (lifestyle exampleState)) =
      [(''Smoking'', Some ''No''), (''Lifestyle'', Some ''No''),
       (''Diet'', Some ''Not provided'')]"
    by (simp add: exampleState_def lifestyleSkipped_def expectedLifestyle_def orElse_def
        lifestyleText_def)
  have ne: "''Diet'' \<noteq> []" "''daily'' \<noteq> []" by simp_all
  have a: "\<exists>b c p pr obs.
      bundleJson (fst (generateBundle countingUuids startWorld exampleState)) = Some b \<and>
      map resource (bn_entry b) =
        Composition c # Patient p # Practitioner pr # map Observation obs \<and>
      map lifestyleSummary (filter isLifestyle obs) =
        map expectedLifestyle (filter (\<lambda>li. \<not> lifestyleSkipped li) (lifestyle exampleState))"
    by (rule mp [OF t [THEN conjunct2, THEN conjunct1] exampleState_ok(1)])
  have b: "\<not> lifestyleSkipped \<lparr>li_label = ''Diet'', li_value = JStr []\<rparr>"
    by (rule mp [OF t [THEN conjunct2, THEN conjunct2, THEN conjunct2, THEN conjunct2,
      THEN conjunct2, THEN conjunct2, THEN conjunct2, THEN conjunct2, THEN conjunct2,
      THEN conjunct2] ne(1)])
  have c: "lifestyleText (JStr ''daily'') = ''daily''"
    by (rule mp [OF t [THEN conjunct2, THEN conjunct2, THEN conjunct2, THEN conjunct2,
      THEN conjunct2, THEN conjunct2, THEN conjunct2, THEN conjunct2, THEN conjunct1] ne(2)])
  show ?thesis
    by (intro conjI exampleState_ok(1) ne(1) b c) (rule a [unfolded v])
qed

end
